theory Spec2Isabelle
  imports Main "HOL-Library.Word"
begin

section \<open>ESP32 Firebase Wake-on-LAN controller: the calls of \<open>main.ino\<close>\<close>

text \<open>
  The sketch is a sequential program whose whole behaviour is the sequence of calls it
  makes to its collaborators: the Firebase client (\<open>Firebase.ready\<close>,
  \<open>Firebase.RTDB.get/getJSON/setBool/setString/setJSON/deleteNode\<close>, the iterator of
  \<open>FirebaseJson\<close>), the WakeOnLan sender, \<open>WiFi.localIP\<close>, \<open>delay\<close> and \<open>Serial\<close>.
  None of these libraries belongs to the repository. Every function of the sketch is
  therefore modelled as a function from the history of calls made so far to the history
  extended by the calls it makes, and the libraries are a parameter: an environment that
  answers each call as an arbitrary function of the history up to and including that call.
  A theorem proved for every environment holds for every store content, every network
  failure and every library version.
\<close>

subsection \<open>Data\<close>

type_synonym octet = "8 word"

text \<open>\<open>IPAddress\<close>: four octets, index 0 first.\<close>

datatype IPAddress = IPAddress octet octet octet octet

text \<open>The assignment \<open>ip[3] = v\<close>.\<close>

fun set_octet3 :: "IPAddress \<Rightarrow> octet \<Rightarrow> IPAddress" where
  "set_octet3 (IPAddress a b c d) v = IPAddress a b c v"

text \<open>The type tags of \<open>FirebaseJson\<close>.\<close>

datatype json_type =
  JSON_UNDEFINED | JSON_OBJECT | JSON_ARRAY | JSON_STRING | JSON_INT
  | JSON_FLOAT | JSON_DOUBLE | JSON_BOOL | JSON_NULL

text \<open>The data types of a database response, \<open>fb_esp_rtdb_data_type_*\<close>.\<close>

datatype rtdb_data_type =
  rtdb_null | rtdb_integer | rtdb_float | rtdb_double | rtdb_boolean
  | rtdb_string | rtdb_json | rtdb_array | rtdb_blob | rtdb_file

text \<open>\<open>FirebaseJsonData\<close>, the fields the sketch reads.\<close>

record FirebaseJsonData =
  success :: bool
  stringValue :: string
  typeNum :: json_type
  intValue :: int

text \<open>
  \<open>FirebaseData\<close> after a request: \<open>ok\<close> is what the request returned, the other fields are
  what the accessors of the object answer until the next request on it.
  \<open>jsonObject r k\<close> is the outcome of \<open>jsonObject().get(taskData, k)\<close>: what \<open>get\<close>
  returned, and \<open>taskData\<close> as it stands afterwards.
\<close>

record FirebaseData =
  ok :: bool
  httpCode :: int
  dataType :: string
  dataTypeEnum :: rtdb_data_type
  errorReason :: string
  jsonObject :: "string \<Rightarrow> bool \<times> FirebaseJsonData"

text \<open>\<open>FirebaseStream\<close>, the notification handed to the stream callback.\<close>

record FirebaseStream =
  stream_dataPath :: string
  stream_dataType :: string
  stream_stringData :: string
  stream_dataTypeEnum :: rtdb_data_type
  stream_boolData :: bool

text \<open>An argument of \<open>Serial.printf\<close>; \<open>Addr ip\<close> stands for \<open>ip.toString().c_str()\<close>.\<close>

datatype printf_arg = S string | I int | U nat | Addr IPAddress

text \<open>The calls to the collaborators, with their arguments.\<close>

datatype event =
    Serial_printf string "printf_arg list"
  | Serial_println string
  | Firebase_ready
  | RTDB_get string
  | RTDB_getJSON string
  | RTDB_setBool string bool
  | RTDB_setString string string
  | RTDB_setJSON string string
  | RTDB_deleteNode string
  | Json_iteratorBegin
  | Json_iteratorGet nat
  | Json_iteratorEnd
  | WiFi_localIP
  | WOL_sendMagicPacket string IPAddress
  | Delay int

type_synonym history = "event list"

text \<open>
  The environment. Each reply is a function of the history that ends with the call being
  answered, so a reply may depend on everything the sketch did before: a read may see an
  earlier write, and what the iterator delivers at index \<open>i\<close> may depend on the requests
  made on \<open>fbdo_general\<close> since \<open>iteratorBegin\<close> (the iterated object belongs to
  \<open>fbdo_general\<close>, which the loop reuses for every fetch). \<open>rtdb_reply\<close> answers every request
  of \<open>Firebase.RTDB\<close>; \<open>toInt\<close> is \<open>String::toInt\<close> of the Arduino core and
  \<open>FIREBASE_ERROR_PATH_NOT_EXIST\<close> the constant of the Firebase client.

  Numbers: \<open>int\<close> and \<open>long\<close> have 32 bits on the ESP32 and the sketch only assigns and
  compares them, so they are integers here; \<open>size_t\<close> is a natural number. A C string is
  the list of its characters before the terminating NUL.
\<close>

record environment =
  ready_reply :: "history \<Rightarrow> bool"
  rtdb_reply :: "history \<Rightarrow> FirebaseData"
  iteratorBegin_reply :: "history \<Rightarrow> nat"
  iteratorGet_reply :: "history \<Rightarrow> json_type \<times> string"
  localIP_reply :: "history \<Rightarrow> IPAddress"
  toInt :: "string \<Rightarrow> int"
  FIREBASE_ERROR_PATH_NOT_EXIST :: int

subsection \<open>Configuration constants\<close>

definition FIREBASE_DIRECT_TRIGGER_PATH :: string where
  "FIREBASE_DIRECT_TRIGGER_PATH = ''/wol/proxmox''"

definition FIREBASE_QUEUE_PATH :: string where
  "FIREBASE_QUEUE_PATH = ''/wol/queue''"

definition DIRECT_TRIGGER_TARGET_MAC :: string where
  "DIRECT_TRIGGER_TARGET_MAC = ''00:00:00:00:00:00''"

text \<open>The pruning option as shipped; the queue processor below takes it as a parameter.\<close>

definition DELETE_COMPLETED_QUEUE_TASKS :: bool where
  "DELETE_COMPLETED_QUEUE_TASKS = False"

subsection \<open>\<open>sendWOL\<close>\<close>

text \<open>
  The loop \<open>for (int i=0; i < 3; ++i) { sendMagicPacket(mac, broadcastIP); delay(50); }\<close>.
\<close>

function send_loop :: "string \<Rightarrow> IPAddress \<Rightarrow> nat \<Rightarrow> history \<Rightarrow> history" where
  "send_loop mac ip i h =
     (if i < 3 then send_loop mac ip (i + 1) (h @ [WOL_sendMagicPacket mac ip, Delay 50])
      else h)"
  by pat_completeness auto
termination
  by (relation "measure (\<lambda>(mac, ip, i, h). 3 - i)") auto

text \<open>
  \<open>sendWOL(const char* macAddress)\<close>; \<open>None\<close> is the null pointer, and the length of the
  list is \<open>strlen\<close>.
\<close>

definition sendWOL :: "environment \<Rightarrow> string option \<Rightarrow> history \<Rightarrow> history" where
  "sendWOL env macAddress h =
     (case macAddress of
        None \<Rightarrow>
          h @ [Serial_printf ''[ERROR] Invalid MAC address format for WOL: %s\<newline>'' [S ''NULL'']]
      | Some mac \<Rightarrow>
          if length mac \<noteq> 17 then
            h @ [Serial_printf ''[ERROR] Invalid MAC address format for WOL: %s\<newline>'' [S mac]]
          else
            let h1 = h @ [WiFi_localIP];
                localIP = localIP_reply env h1;
                broadcastIP = set_octet3 localIP 255;
                h2 = h1 @ [Serial_printf
                  ''[INFO] Sending WOL Magic Packet to MAC: %s via Broadcast IP: %s\<newline>''
                  [S mac, Addr broadcastIP]]
            in send_loop mac broadcastIP 0 h2)"

subsection \<open>\<open>firebaseStreamCallback\<close>\<close>

definition firebaseStreamCallback :: "environment \<Rightarrow> FirebaseStream \<Rightarrow> history \<Rightarrow> history" where
  "firebaseStreamCallback env d h =
     (let h1 = h @ [Serial_printf ''[STREAM] Path: %s, Type: %s, Value: %s\<newline>''
                  [S (stream_dataPath d), S (stream_dataType d), S (stream_stringData d)]]
      in
      if stream_dataTypeEnum d = rtdb_boolean \<and> stream_boolData d then
        let h2 = h1 @ [Serial_printf ''[INFO] Direct WOL Trigger received for path: %s\<newline>''
                     [S FIREBASE_DIRECT_TRIGGER_PATH]];
            h3 = sendWOL env (Some DIRECT_TRIGGER_TARGET_MAC) h2;
            h4 = h3 @ [Serial_printf ''  Resetting trigger flag '%s' to false...\<newline>''
                     [S FIREBASE_DIRECT_TRIGGER_PATH],
                   RTDB_setBool FIREBASE_DIRECT_TRIGGER_PATH False];
            r = rtdb_reply env h4
        in
        if \<not> ok r then
          h4 @ [Serial_printf ''[ERROR] Failed to reset trigger flag: %s\<newline>'' [S (errorReason r)]]
        else
          h4 @ [Serial_println ''  Trigger flag reset successfully.'']
      else h1)"

subsection \<open>\<open>checkAndInitFirebaseStructure\<close>\<close>




subsection \<open>\<open>processWolQueue\<close>\<close>

text \<open>
  The extraction of the optional \<open>delay\<close> field from the fetched task object: \<open>delayMs\<close>
  starts at 0 and is assigned only when the field is read.
\<close>

definition extract_delayMs :: "environment \<Rightarrow> FirebaseData \<Rightarrow> int" where
  "extract_delayMs env r =
     (case jsonObject r ''delay'' of (got, taskData) \<Rightarrow>
        if got \<and> success taskData then
          let delayMs =
                (if typeNum taskData = JSON_INT \<or> typeNum taskData = JSON_FLOAT
                 then intValue taskData
                 else toInt env (stringValue taskData))
          in if delayMs < 0 then 0 else delayMs
        else 0)"

text \<open>
  The body of the loop over the iterator, for index \<open>i\<close>. The state is the history and
  \<open>completedTaskIds\<close>; \<open>del\<close> is \<open>DELETE_COMPLETED_QUEUE_TASKS\<close>.
\<close>

definition queue_loop_body ::
  "bool \<Rightarrow> environment \<Rightarrow> nat \<Rightarrow> history \<times> string list \<Rightarrow> history \<times> string list" where
  "queue_loop_body del env i st =
     (case st of (h, completedTaskIds) \<Rightarrow>
      let h1 = h @ [Json_iteratorGet i] in
      case iteratorGet_reply env h1 of (type, key) \<Rightarrow>
      if type = JSON_OBJECT then
        let taskId = key;
            taskPath = FIREBASE_QUEUE_PATH @ ''/'' @ taskId;
            h2 = h1 @ [Serial_printf ''  Inspecting Task ID: %s (Path: %s)\<newline>'' [S taskId, S taskPath],
                       RTDB_get taskPath];
            r = rtdb_reply env h2
        in
        if ok r then
          if dataTypeEnum r = rtdb_json then
            case jsonObject r ''status'' of (got_status, statusData) \<Rightarrow>
            if got_status then
              if success statusData \<and> stringValue statusData = ''pending'' then
                let h3 = h2 @ [Serial_printf ''    Task '%s' has status 'pending'. Processing...\<newline>''
                                 [S taskId]]
                in
                case jsonObject r ''mac'' of (got_mac, macData) \<Rightarrow>
                if got_mac \<and> success macData then
                  let macAddress = stringValue macData;
                      delayMs = extract_delayMs env r;
                      h4 = h3 @ [Serial_printf ''      MAC: %s, Delay: %d ms\<newline>''
                                   [S macAddress, I delayMs]];
                      h5 = (if delayMs > 0 then
                              h4 @ [Serial_printf ''      Applying delay of %d ms...\<newline>'' [I delayMs],
                                    Delay delayMs]
                            else h4);
                      h6 = sendWOL env (Some macAddress) h5;
                      h7 = h6 @ [Serial_printf ''      Updating status to 'done'...\<newline>'' [],
                                 RTDB_setString (taskPath @ ''/status'') ''done''];
                      w = rtdb_reply env h7
                  in
                  if ok w then
                    (h7 @ [Serial_printf ''    Task '%s' completed successfully.\<newline>'' [S taskId]],
                     if del then completedTaskIds @ [taskId] else completedTaskIds)
                  else
                    (h7 @ [Serial_printf ''[ERROR] Task '%s': Failed to update status to 'done': %s\<newline>''
                             [S taskId, S (errorReason w)]],
                     completedTaskIds)
                else
                  (h3 @ [Serial_printf ''[WARN] Task '%s': Failed to extract 'mac' field.\<newline>''
                           [S taskId],
                         RTDB_setString (taskPath @ ''/status'') ''error_missing_mac''],
                   completedTaskIds)
              else if \<not> success statusData then
                (h2 @ [Serial_printf ''[WARN] Task '%s': Could not read 'status' field.\<newline>''
                         [S taskId]],
                 completedTaskIds)
              else
                (h2 @ [Serial_printf ''    Task '%s': Status is '%s' (not 'pending'). Skipping.\<newline>''
                         [S taskId, S (stringValue statusData)]],
                 if del \<and> stringValue statusData = ''done''
                 then completedTaskIds @ [taskId] else completedTaskIds)
            else
              (h2 @ [Serial_printf
                       ''[WARN] Task '%s': Could not get 'status' field data from fetched object.\<newline>''
                       [S taskId]],
               completedTaskIds)
          else
            (h2 @ [Serial_printf
                     ''[WARN] Fetched data for task '%s' is not JSON (Type: %s). Skipping.\<newline>''
                     [S taskId, S (dataType r)]],
             completedTaskIds)
        else
          (h2 @ [Serial_printf ''[ERROR] Failed to fetch task object for Task ID %s: %s\<newline>''
                   [S taskId, S (errorReason r)]],
           completedTaskIds)
      else
        (h1 @ [Serial_printf
                 ''[WARN] Skipping item '%s' at index %d in queue - it's not a JSON object.\<newline>''
                 [S key, U i]],
         completedTaskIds))"

text \<open>The loop \<open>for (size_t i = 0; i < taskCount; i++)\<close>, entered at index \<open>i\<close>.\<close>

function queue_loop ::
  "bool \<Rightarrow> environment \<Rightarrow> nat \<Rightarrow> nat \<Rightarrow> history \<times> string list \<Rightarrow> history \<times> string list" where
  "queue_loop del env i taskCount st =
     (if i < taskCount then queue_loop del env (i + 1) taskCount (queue_loop_body del env i st)
      else st)"
  by pat_completeness auto
termination
  by (relation "measure (\<lambda>(del, env, i, taskCount, st). taskCount - i)") auto

text \<open>The loop over \<open>completedTaskIds\<close> that deletes the marked tasks.\<close>

fun delete_loop :: "environment \<Rightarrow> string list \<Rightarrow> history \<Rightarrow> history" where
  "delete_loop env [] h = h"
| "delete_loop env (taskIdToDelete # ids) h =
     (let taskPathToDelete = FIREBASE_QUEUE_PATH @ ''/'' @ taskIdToDelete;
          h1 = h @ [Serial_printf ''  Deleting node: %s\<newline>'' [S taskPathToDelete],
                    RTDB_deleteNode taskPathToDelete];
          r = rtdb_reply env h1;
          h2 = (if \<not> ok r then
                  h1 @ [Serial_printf ''[ERROR] Failed to delete task '%s': %s\<newline>''
                          [S taskIdToDelete, S (errorReason r)]]
                else h1)
      in delete_loop env ids h2)"

definition processWolQueue :: "bool \<Rightarrow> environment \<Rightarrow> history \<Rightarrow> history" where
  "processWolQueue del env h =
     (let h0 = h @ [Firebase_ready] in
      if \<not> ready_reply env h0 then
        h0 @ [Serial_println ''[QUEUE] Firebase not ready, skipping queue check.'']
      else
        let h1 = h0 @ [Serial_printf ''[QUEUE] Checking WOL queue at %s...\<newline>''
                         [S FIREBASE_QUEUE_PATH],
                       RTDB_getJSON FIREBASE_QUEUE_PATH];
            q = rtdb_reply env h1
        in
        if ok q then
          let h2 = h1 @ [Json_iteratorBegin];
              taskCount = iteratorBegin_reply env h2;
              h3 = h2 @ [Serial_printf ''  Found %d potential tasks.\<newline>'' [U taskCount]]
          in
          if taskCount = 0 then h3 @ [Json_iteratorEnd]
          else
            case queue_loop del env 0 taskCount (h3, []) of (h4, completedTaskIds) \<Rightarrow>
            let h5 = h4 @ [Json_iteratorEnd];
                h6 = (if del \<and> completedTaskIds \<noteq> [] then
                        delete_loop env completedTaskIds
                          (h5 @ [Serial_printf ''[QUEUE] Deleting %d completed tasks...\<newline>''
                                   [U (length completedTaskIds)]])
                      else h5)
            in h6 @ [Serial_println ''[QUEUE] Queue check finished.'']
        else
          (if httpCode q = 200 \<and> dataType q = ''null'' then
             h1 @ [Serial_println ''  Queue is empty or does not exist (treated as empty).'']
           else
             h1 @ [Serial_printf ''[ERROR] Failed to fetch queue data from '%s': %s\<newline>''
                     [S FIREBASE_QUEUE_PATH, S (errorReason q)]])
          @ [Serial_println ''[QUEUE] Queue check finished.''])"

declare send_loop.simps [simp del]
declare queue_loop.simps [simp del]

subsection \<open>Observing a history\<close>

text \<open>The calls a function adds to the history \<open>h\<close> it was entered with.\<close>

definition emitted :: "history \<Rightarrow> history \<Rightarrow> event list" where
  "emitted h h' = drop (length h) h'"

text \<open>A wake packet handed to the WakeOnLan sender.\<close>

fun is_packet :: "event \<Rightarrow> bool" where
  "is_packet (WOL_sendMagicPacket mac ip) = True"
| "is_packet _ = False"

text \<open>A request that changes the store: a write of a value or a deletion.\<close>

fun is_store_write :: "event \<Rightarrow> bool" where
  "is_store_write (RTDB_setBool p b) = True"
| "is_store_write (RTDB_setString p v) = True"
| "is_store_write (RTDB_setJSON p v) = True"
| "is_store_write (RTDB_deleteNode p) = True"
| "is_store_write _ = False"

fun is_delete :: "event \<Rightarrow> bool" where
  "is_delete (RTDB_deleteNode p) = True"
| "is_delete _ = False"

text \<open>The calls of one invocation \<open>sendWOL(mac)\<close> entered with the history \<open>h\<close>.\<close>

definition sendWOL_calls :: "environment \<Rightarrow> string \<Rightarrow> history \<Rightarrow> event list" where
  "sendWOL_calls env mac h = emitted h (sendWOL env (Some mac) h)"

subsection \<open>What the loop body observes at index \<open>i\<close>\<close>

text \<open>
  Names for what the body of the queue loop reads when it is entered at index \<open>i\<close> with
  the history \<open>h\<close>: the reply of the iterator (type and key), the path of the task, the
  history up to the fetch of the task object, and the fetched object.
\<close>

definition entry_reply :: "environment \<Rightarrow> nat \<Rightarrow> history \<Rightarrow> json_type \<times> string" where
  "entry_reply env i h = iteratorGet_reply env (h @ [Json_iteratorGet i])"

definition task_id :: "environment \<Rightarrow> nat \<Rightarrow> history \<Rightarrow> string" where
  "task_id env i h = snd (entry_reply env i h)"

definition task_path :: "environment \<Rightarrow> nat \<Rightarrow> history \<Rightarrow> string" where
  "task_path env i h = FIREBASE_QUEUE_PATH @ ''/'' @ task_id env i h"

definition fetch_history :: "environment \<Rightarrow> nat \<Rightarrow> history \<Rightarrow> history" where
  "fetch_history env i h =
     h @ [Json_iteratorGet i,
          Serial_printf ''  Inspecting Task ID: %s (Path: %s)\<newline>''
            [S (task_id env i h), S (task_path env i h)],
          RTDB_get (task_path env i h)]"

definition fetched :: "environment \<Rightarrow> nat \<Rightarrow> history \<Rightarrow> FirebaseData" where
  "fetched env i h = rtdb_reply env (fetch_history env i h)"

text \<open>The entry is an object, its fetch succeeded and delivered JSON.\<close>

definition task_fetched :: "environment \<Rightarrow> nat \<Rightarrow> history \<Rightarrow> bool" where
  "task_fetched env i h =
     (fst (entry_reply env i h) = JSON_OBJECT \<and> ok (fetched env i h)
      \<and> dataTypeEnum (fetched env i h) = rtdb_json)"

text \<open>
  A field of the fetched object is readable when \<open>get\<close> returns true and sets
  \<open>taskData.success\<close>; \<open>field_string\<close> is \<open>taskData.stringValue\<close> after that \<open>get\<close>.
\<close>

definition field_readable :: "FirebaseData \<Rightarrow> string \<Rightarrow> bool" where
  "field_readable r k = (fst (jsonObject r k) \<and> success (snd (jsonObject r k)))"

definition field_string :: "FirebaseData \<Rightarrow> string \<Rightarrow> string" where
  "field_string r k = stringValue (snd (jsonObject r k))"

text \<open>The task was fetched and its status field reads as the string \<open>s\<close>.\<close>

definition status_is :: "environment \<Rightarrow> nat \<Rightarrow> history \<Rightarrow> string \<Rightarrow> bool" where
  "status_is env i h s =
     (task_fetched env i h \<and> field_readable (fetched env i h) ''status''
      \<and> field_string (fetched env i h) ''status'' = s)"

subsection \<open>One invocation of \<open>processWolQueue\<close>, up to index \<open>i\<close>\<close>

text \<open>
  Names for an invocation of \<open>processWolQueue\<close> entered with the history \<open>h\<close>: the reply
  to the bulk read of the queue, the task count the iterator reports, the history with
  which the loop is entered, and the state (history and marked ids) in which the loop
  reaches index \<open>i\<close>, that is, after the body has run for the indices below \<open>i\<close>.
\<close>

definition bulk_read :: "environment \<Rightarrow> history \<Rightarrow> FirebaseData" where
  "bulk_read env h =
     rtdb_reply env
       (h @ [Firebase_ready,
             Serial_printf ''[QUEUE] Checking WOL queue at %s...\<newline>'' [S FIREBASE_QUEUE_PATH],
             RTDB_getJSON FIREBASE_QUEUE_PATH])"

definition task_count :: "environment \<Rightarrow> history \<Rightarrow> nat" where
  "task_count env h =
     iteratorBegin_reply env
       (h @ [Firebase_ready,
             Serial_printf ''[QUEUE] Checking WOL queue at %s...\<newline>'' [S FIREBASE_QUEUE_PATH],
             RTDB_getJSON FIREBASE_QUEUE_PATH,
             Json_iteratorBegin])"

definition pass_start :: "environment \<Rightarrow> history \<Rightarrow> history" where
  "pass_start env h =
     h @ [Firebase_ready,
          Serial_printf ''[QUEUE] Checking WOL queue at %s...\<newline>'' [S FIREBASE_QUEUE_PATH],
          RTDB_getJSON FIREBASE_QUEUE_PATH,
          Json_iteratorBegin,
          Serial_printf ''  Found %d potential tasks.\<newline>'' [U (task_count env h)]]"

definition loop_state ::
  "bool \<Rightarrow> environment \<Rightarrow> history \<Rightarrow> nat \<Rightarrow> history \<times> string list" where
  "loop_state del env h i = queue_loop del env 0 i (pass_start env h, [])"

subsection \<open>What the bootstrapper observes\<close>




text \<open>
  The hardware address format of the specification, \<open>xx:xx:xx:xx:xx:xx\<close>: 17 characters,
  a colon at every third position and a hexadecimal digit elsewhere. The sketch has no
  such check; the predicate only states which inputs the specification calls valid.
\<close>

definition is_hex_digit :: "char \<Rightarrow> bool" where
  "is_hex_digit c = (c \<in> set ''0123456789abcdefABCDEF'')"

definition spec_valid_mac :: "string \<Rightarrow> bool" where
  "spec_valid_mac m =
     (length m = 17 \<and>
      list_all (\<lambda>i. if i mod 3 = 2 then m ! i = CHR '':'' else is_hex_digit (m ! i)) [0..<17])"

subsection \<open>A concrete environment\<close>

text \<open>
  One store and one network, to run the functions on: a queue of seven entries, of which
  \<open>t1\<close> is pending with a delay of 1000, \<open>t2\<close> is pending and has no \<open>mac\<close>, \<open>t3\<close> is
  done, \<open>junk\<close> is not an object, \<open>t4\<close> cannot be fetched, the status of \<open>t5\<close> cannot be
  read, and \<open>t6\<close> is pending with a \<open>mac\<close> of seven characters and the delay \<open>-5\<close> as a
  string, and its status cannot be written. The deletion of \<open>t1\<close> fails.
\<close>

definition json_field :: "string \<Rightarrow> json_type \<Rightarrow> int \<Rightarrow> bool \<times> FirebaseJsonData" where
  "json_field v t n = (True, \<lparr>success = True, stringValue = v, typeNum = t, intValue = n\<rparr>)"

definition json_unreadable :: "bool \<times> FirebaseJsonData" where
  "json_unreadable =
     (True, \<lparr>success = False, stringValue = [], typeNum = JSON_UNDEFINED, intValue = 0\<rparr>)"

definition json_absent :: "bool \<times> FirebaseJsonData" where
  "json_absent =
     (False, \<lparr>success = False, stringValue = [], typeNum = JSON_UNDEFINED, intValue = 0\<rparr>)"

definition reply_ok ::
  "rtdb_data_type \<Rightarrow> string \<Rightarrow> (string \<Rightarrow> bool \<times> FirebaseJsonData) \<Rightarrow> FirebaseData" where
  "reply_ok t tn obj =
     \<lparr>ok = True, httpCode = 200, dataType = tn, dataTypeEnum = t, errorReason = [],
      jsonObject = obj\<rparr>"

definition reply_failed :: "int \<Rightarrow> string \<Rightarrow> string \<Rightarrow> FirebaseData" where
  "reply_failed code tn reason =
     \<lparr>ok = False, httpCode = code, dataType = tn, dataTypeEnum = rtdb_null, errorReason = reason,
      jsonObject = (\<lambda>k. json_absent)\<rparr>"

definition demo_task :: "string \<Rightarrow> FirebaseData" where
  "demo_task p =
     (if p = ''/wol/queue/t1'' then
        reply_ok rtdb_json ''json'' (\<lambda>k.
          if k = ''status'' then json_field ''pending'' JSON_STRING 0
          else if k = ''mac'' then json_field ''AA:BB:CC:DD:EE:FF'' JSON_STRING 0
          else if k = ''delay'' then json_field ''1000'' JSON_INT 1000
          else json_absent)
      else if p = ''/wol/queue/t2'' then
        reply_ok rtdb_json ''json'' (\<lambda>k.
          if k = ''status'' then json_field ''pending'' JSON_STRING 0 else json_absent)
      else if p = ''/wol/queue/t3'' then
        reply_ok rtdb_json ''json'' (\<lambda>k.
          if k = ''status'' then json_field ''done'' JSON_STRING 0
          else if k = ''mac'' then json_field ''AA:BB:CC:DD:EE:FF'' JSON_STRING 0
          else json_absent)
      else if p = ''/wol/queue/t5'' then
        reply_ok rtdb_json ''json'' (\<lambda>k.
          if k = ''status'' then json_unreadable else json_absent)
      else if p = ''/wol/queue/t6'' then
        reply_ok rtdb_json ''json'' (\<lambda>k.
          if k = ''status'' then json_field ''pending'' JSON_STRING 0
          else if k = ''mac'' then json_field ''bad-mac'' JSON_STRING 0
          else if k = ''delay'' then json_field ''-5'' JSON_STRING 0
          else json_absent)
      else if p = ''/wol/proxmox'' then reply_ok rtdb_boolean ''boolean'' (\<lambda>k. json_absent)
      else if p = ''/wol/queue'' then reply_ok rtdb_json ''json'' (\<lambda>k. json_absent)
      else reply_failed (- 1) [] ''connection lost'')"

definition demo_rtdb :: "history \<Rightarrow> FirebaseData" where
  "demo_rtdb h =
     (case last h of
        RTDB_get p \<Rightarrow> demo_task p
      | RTDB_getJSON p \<Rightarrow> demo_task p
      | RTDB_setString p v \<Rightarrow>
          if p = ''/wol/queue/t6/status'' then reply_failed (- 1) [] ''connection lost''
          else reply_ok rtdb_null ''null'' (\<lambda>k. json_absent)
      | RTDB_deleteNode p \<Rightarrow>
          if p = ''/wol/queue/t1'' then reply_failed (- 1) [] ''connection lost''
          else reply_ok rtdb_null ''null'' (\<lambda>k. json_absent)
      | _ \<Rightarrow> reply_ok rtdb_null ''null'' (\<lambda>k. json_absent))"

definition demo_entries :: "(json_type \<times> string) list" where
  "demo_entries =
     [(JSON_OBJECT, ''t1''), (JSON_OBJECT, ''t2''), (JSON_OBJECT, ''t3''), (JSON_STRING, ''junk''),
      (JSON_OBJECT, ''t4''), (JSON_OBJECT, ''t5''), (JSON_OBJECT, ''t6'')]"

definition demo_iteratorGet :: "history \<Rightarrow> json_type \<times> string" where
  "demo_iteratorGet h =
     (case last h of
        Json_iteratorGet i \<Rightarrow>
          if i < length demo_entries then demo_entries ! i else (JSON_UNDEFINED, [])
      | _ \<Rightarrow> (JSON_UNDEFINED, []))"

definition demo_env :: environment where
  "demo_env =
     \<lparr>ready_reply = (\<lambda>h. True),
      rtdb_reply = demo_rtdb,
      iteratorBegin_reply = (\<lambda>h. length demo_entries),
      iteratorGet_reply = demo_iteratorGet,
      localIP_reply = (\<lambda>h. IPAddress 192 168 1 42),
      toInt = (\<lambda>s. if s = ''-5'' then - 5 else 0),
      FIREBASE_ERROR_PATH_NOT_EXIST = - 14\<rparr>"

text \<open>
  The history with which the loop reaches index 1 in the concrete environment, when
  \<open>processWolQueue\<close> is entered with the empty history: the start of the pass and the
  calls made for \<open>t1\<close>.
\<close>

definition demo_after_t1 :: history where
  "demo_after_t1 =
     [Firebase_ready,
      Serial_printf ''[QUEUE] Checking WOL queue at %s...\<newline>'' [S ''/wol/queue''],
      RTDB_getJSON ''/wol/queue'',
      Json_iteratorBegin,
      Serial_printf ''  Found %d potential tasks.\<newline>'' [U 7],
      Json_iteratorGet 0,
      Serial_printf ''  Inspecting Task ID: %s (Path: %s)\<newline>'' [S ''t1'', S ''/wol/queue/t1''],
      RTDB_get ''/wol/queue/t1'',
      Serial_printf ''    Task '%s' has status 'pending'. Processing...\<newline>'' [S ''t1''],
      Serial_printf ''      MAC: %s, Delay: %d ms\<newline>'' [S ''AA:BB:CC:DD:EE:FF'', I 1000],
      Serial_printf ''      Applying delay of %d ms...\<newline>'' [I 1000],
      Delay 1000,
      WiFi_localIP,
      Serial_printf ''[INFO] Sending WOL Magic Packet to MAC: %s via Broadcast IP: %s\<newline>''
        [S ''AA:BB:CC:DD:EE:FF'', Addr (IPAddress 192 168 1 255)],
      WOL_sendMagicPacket ''AA:BB:CC:DD:EE:FF'' (IPAddress 192 168 1 255), Delay 50,
      WOL_sendMagicPacket ''AA:BB:CC:DD:EE:FF'' (IPAddress 192 168 1 255), Delay 50,
      WOL_sendMagicPacket ''AA:BB:CC:DD:EE:FF'' (IPAddress 192 168 1 255), Delay 50,
      Serial_printf ''      Updating status to 'done'...\<newline>'' [],
      RTDB_setString ''/wol/queue/t1/status'' ''done'',
      Serial_printf ''    Task '%s' completed successfully.\<newline>'' [S ''t1'']]"

text \<open>The same device when no request to the store succeeds.\<close>

definition offline_env :: environment where
  "offline_env = demo_env\<lparr>rtdb_reply := (\<lambda>h. reply_failed (- 1) [] ''connection lost'')\<rparr>"

text \<open>A notification of the trigger flag holding the boolean \<open>b\<close>.\<close>

definition demo_stream :: "bool \<Rightarrow> FirebaseStream" where
  "demo_stream b =
     \<lparr>stream_dataPath = ''/'', stream_dataType = ''boolean'',
      stream_stringData = (if b then ''true'' else ''false''),
      stream_dataTypeEnum = rtdb_boolean, stream_boolData = b\<rparr>"




section \<open>Properties\<close>

subsection \<open>Auxiliary facts\<close>

lemma emitted_append [simp]: "emitted h (h @ es) = es"
  by (simp add: emitted_def)

lemma emitted_Nil [simp]: "emitted [] h = h"
  by (simp add: emitted_def)

lemma demo_env_replies [simp]:
  "ready_reply demo_env h = True"
  "rtdb_reply demo_env = demo_rtdb"
  "iteratorBegin_reply demo_env h = 7"
  "iteratorGet_reply demo_env = demo_iteratorGet"
  "localIP_reply demo_env h = IPAddress 192 168 1 42"
  "toInt demo_env s = (if s = ''-5'' then - 5 else 0)"
  "FIREBASE_ERROR_PATH_NOT_EXIST demo_env = - 14"
  by (simp_all add: demo_env_def demo_entries_def)

lemma send_loop_from_0:
  "send_loop mac ip 0 h =
     h @ [WOL_sendMagicPacket mac ip, Delay 50, WOL_sendMagicPacket mac ip, Delay 50,
          WOL_sendMagicPacket mac ip, Delay 50]"
  by (simp add: send_loop.simps)

lemma sendWOL_length_17:
  assumes "length mac = 17"
  shows "sendWOL env (Some mac) h =
     h @ [WiFi_localIP,
          Serial_printf ''[INFO] Sending WOL Magic Packet to MAC: %s via Broadcast IP: %s\<newline>''
            [S mac, Addr (set_octet3 (localIP_reply env (h @ [WiFi_localIP])) 255)],
          WOL_sendMagicPacket mac (set_octet3 (localIP_reply env (h @ [WiFi_localIP])) 255), Delay 50,
          WOL_sendMagicPacket mac (set_octet3 (localIP_reply env (h @ [WiFi_localIP])) 255), Delay 50,
          WOL_sendMagicPacket mac (set_octet3 (localIP_reply env (h @ [WiFi_localIP])) 255), Delay 50]"
  using assms by (simp add: sendWOL_def Let_def send_loop_from_0)

lemma sendWOL_not_17:
  assumes "length mac \<noteq> 17"
  shows "sendWOL env (Some mac) h =
     h @ [Serial_printf ''[ERROR] Invalid MAC address format for WOL: %s\<newline>'' [S mac]]"
  using assms by (simp add: sendWOL_def)

lemma spec_valid_mac_length: "spec_valid_mac mac \<Longrightarrow> length mac = 17"
  by (simp add: spec_valid_mac_def)

lemma sendWOL_Some_eq: "sendWOL env (Some mac) h = h @ sendWOL_calls env mac h"
  by (cases "length mac = 17") (simp_all add: sendWOL_calls_def sendWOL_length_17 sendWOL_not_17)

lemma sendWOL_calls_17:
  "length mac = 17 \<Longrightarrow> sendWOL_calls env mac h =
     [WiFi_localIP,
      Serial_printf ''[INFO] Sending WOL Magic Packet to MAC: %s via Broadcast IP: %s\<newline>''
        [S mac, Addr (set_octet3 (localIP_reply env (h @ [WiFi_localIP])) 255)],
      WOL_sendMagicPacket mac (set_octet3 (localIP_reply env (h @ [WiFi_localIP])) 255), Delay 50,
      WOL_sendMagicPacket mac (set_octet3 (localIP_reply env (h @ [WiFi_localIP])) 255), Delay 50,
      WOL_sendMagicPacket mac (set_octet3 (localIP_reply env (h @ [WiFi_localIP])) 255), Delay 50]"
  by (simp add: sendWOL_calls_def sendWOL_length_17)

lemma sendWOL_calls_not_17:
  "length mac \<noteq> 17 \<Longrightarrow> sendWOL_calls env mac h =
     [Serial_printf ''[ERROR] Invalid MAC address format for WOL: %s\<newline>'' [S mac]]"
  by (simp add: sendWOL_calls_def sendWOL_not_17)

lemma sendWOL_calls_no_write [simp]:
  "filter is_store_write (sendWOL_calls env mac h) = []"
  "filter is_delete (sendWOL_calls env mac h) = []"
  by (cases "length mac = 17"; simp add: sendWOL_calls_17 sendWOL_calls_not_17)+

lemma extract_delayMs_nonneg: "0 \<le> extract_delayMs env r"
  by (simp add: extract_delayMs_def Let_def split: prod.splits)

lemma queue_loop_step:
  "i < n \<Longrightarrow> queue_loop del env i n st = queue_loop del env (Suc i) n (queue_loop_body del env i st)"
  by (subst queue_loop.simps) simp

lemma queue_loop_done: "n \<le> i \<Longrightarrow> queue_loop del env i n st = st"
  by (subst queue_loop.simps) simp

lemma queue_loop_foldl:
  "queue_loop del env i n st = foldl (\<lambda>s j. queue_loop_body del env j s) st [i..<n]"
proof (induction del env i n st rule: queue_loop.induct)
  case (1 del env i taskCount st)
  show ?case
  proof (cases "i < taskCount")
    case True
    with 1 show ?thesis
      by (simp add: queue_loop_step upt_conv_Cons)
  next
    case False
    then show ?thesis
      by (simp add: queue_loop_done)
  qed
qed

lemma queue_loop_split:
  "i \<le> j \<Longrightarrow> j \<le> n \<Longrightarrow>
     queue_loop del env i n st = queue_loop del env j n (queue_loop del env i j st)"
proof -
  assume "i \<le> j" "j \<le> n"
  then have "[i..<n] = [i..<j] @ [j..<n]"
    by (metis le_Suc_ex upt_add_eq_append)
  then show ?thesis
    by (simp add: queue_loop_foldl)
qed

text \<open>The loop body, branch by branch.\<close>

lemmas observation_defs =
  status_is_def task_fetched_def field_readable_def field_string_def fetched_def
  fetch_history_def task_path_def task_id_def entry_reply_def

lemma body_not_object:
  assumes "fst (entry_reply env i h) \<noteq> JSON_OBJECT"
  shows "queue_loop_body del env i (h, ids) =
     (h @ [Json_iteratorGet i,
           Serial_printf
             ''[WARN] Skipping item '%s' at index %d in queue - it's not a JSON object.\<newline>''
             [S (task_id env i h), U i]],
      ids)"
  using assms
  by (simp add: queue_loop_body_def observation_defs Let_def case_prod_beta)

lemma body_fetch_failed:
  assumes "fst (entry_reply env i h) = JSON_OBJECT" and "\<not> ok (fetched env i h)"
  shows "queue_loop_body del env i (h, ids) =
     (fetch_history env i h
      @ [Serial_printf ''[ERROR] Failed to fetch task object for Task ID %s: %s\<newline>''
           [S (task_id env i h), S (errorReason (fetched env i h))]],
      ids)"
  using assms
  by (simp add: queue_loop_body_def observation_defs Let_def case_prod_beta)

lemma body_not_json:
  assumes "fst (entry_reply env i h) = JSON_OBJECT" and "ok (fetched env i h)"
    and "dataTypeEnum (fetched env i h) \<noteq> rtdb_json"
  shows "queue_loop_body del env i (h, ids) =
     (fetch_history env i h
      @ [Serial_printf
           ''[WARN] Fetched data for task '%s' is not JSON (Type: %s). Skipping.\<newline>''
           [S (task_id env i h), S (dataType (fetched env i h))]],
      ids)"
  using assms
  by (simp add: queue_loop_body_def observation_defs Let_def case_prod_beta)

lemma body_status_absent:
  assumes "task_fetched env i h" and "\<not> fst (jsonObject (fetched env i h) ''status'')"
  shows "queue_loop_body del env i (h, ids) =
     (fetch_history env i h
      @ [Serial_printf
           ''[WARN] Task '%s': Could not get 'status' field data from fetched object.\<newline>''
           [S (task_id env i h)]],
      ids)"
  using assms
  by (simp add: queue_loop_body_def observation_defs Let_def case_prod_beta)

lemma body_status_unreadable:
  assumes "task_fetched env i h" and "fst (jsonObject (fetched env i h) ''status'')"
    and "\<not> success (snd (jsonObject (fetched env i h) ''status''))"
  shows "queue_loop_body del env i (h, ids) =
     (fetch_history env i h
      @ [Serial_printf ''[WARN] Task '%s': Could not read 'status' field.\<newline>''
           [S (task_id env i h)]],
      ids)"
  using assms
  by (simp add: queue_loop_body_def observation_defs Let_def case_prod_beta)

lemma body_not_pending:
  assumes "status_is env i h s" and "s \<noteq> ''pending''"
  shows "queue_loop_body del env i (h, ids) =
     (fetch_history env i h
      @ [Serial_printf ''    Task '%s': Status is '%s' (not 'pending'). Skipping.\<newline>''
           [S (task_id env i h), S s]],
      if del \<and> s = ''done'' then ids @ [task_id env i h] else ids)"
  using assms
  by (simp add: queue_loop_body_def observation_defs Let_def case_prod_beta)

lemma body_missing_mac:
  assumes "status_is env i h ''pending''" and "\<not> field_readable (fetched env i h) ''mac''"
  shows "queue_loop_body del env i (h, ids) =
     (fetch_history env i h
      @ [Serial_printf ''    Task '%s' has status 'pending'. Processing...\<newline>''
           [S (task_id env i h)],
         Serial_printf ''[WARN] Task '%s': Failed to extract 'mac' field.\<newline>''
           [S (task_id env i h)],
         RTDB_setString (task_path env i h @ ''/status'') ''error_missing_mac''],
      ids)"
  using assms
  by (simp add: queue_loop_body_def observation_defs Let_def case_prod_beta)

lemma body_pending:
  assumes "status_is env i h ''pending''" and "field_readable (fetched env i h) ''mac''"
  shows "queue_loop_body del env i (h, ids) =
    (let r = fetched env i h;
         mac = field_string r ''mac'';
         d = extract_delayMs env r;
         h5 = fetch_history env i h
              @ [Serial_printf ''    Task '%s' has status 'pending'. Processing...\<newline>''
                   [S (task_id env i h)],
                 Serial_printf ''      MAC: %s, Delay: %d ms\<newline>'' [S mac, I d]]
              @ (if 0 < d then [Serial_printf ''      Applying delay of %d ms...\<newline>'' [I d], Delay d]
                 else []);
         h7 = h5 @ sendWOL_calls env mac h5
              @ [Serial_printf ''      Updating status to 'done'...\<newline>'' [],
                 RTDB_setString (task_path env i h @ ''/status'') ''done'']
     in if ok (rtdb_reply env h7) then
          (h7 @ [Serial_printf ''    Task '%s' completed successfully.\<newline>'' [S (task_id env i h)]],
           if del then ids @ [task_id env i h] else ids)
        else
          (h7 @ [Serial_printf ''[ERROR] Task '%s': Failed to update status to 'done': %s\<newline>''
                   [S (task_id env i h), S (errorReason (rtdb_reply env h7))]],
           ids))"
  using assms
  by (simp add: queue_loop_body_def observation_defs Let_def case_prod_beta sendWOL_Some_eq)

text \<open>Every loop only extends the history and the list of marked ids.\<close>

lemma body_extends:
  "\<exists>es more. queue_loop_body del env i (h, ids) = (h @ es, ids @ more) \<and> filter is_delete es = []"
proof -
  let ?r = "fetched env i h"
  consider
      (a) "fst (entry_reply env i h) \<noteq> JSON_OBJECT"
    | (b) "fst (entry_reply env i h) = JSON_OBJECT" "\<not> ok ?r"
    | (c) "fst (entry_reply env i h) = JSON_OBJECT" "ok ?r" "dataTypeEnum ?r \<noteq> rtdb_json"
    | (d) "task_fetched env i h" "\<not> fst (jsonObject ?r ''status'')"
    | (e) "task_fetched env i h" "fst (jsonObject ?r ''status'')"
          "\<not> success (snd (jsonObject ?r ''status''))"
    | (f) "status_is env i h (field_string ?r ''status'')" "field_string ?r ''status'' \<noteq> ''pending''"
    | (g) "status_is env i h ''pending''" "\<not> field_readable ?r ''mac''"
    | (k) "status_is env i h ''pending''" "field_readable ?r ''mac''"
    unfolding status_is_def task_fetched_def field_readable_def by blast
  then show ?thesis
  proof cases
    case a
    then show ?thesis by (simp add: body_not_object)
  next
    case b
    then show ?thesis by (simp add: body_fetch_failed fetch_history_def)
  next
    case c
    then show ?thesis by (simp add: body_not_json fetch_history_def)
  next
    case d
    then show ?thesis by (simp add: body_status_absent fetch_history_def)
  next
    case e
    then show ?thesis by (simp add: body_status_unreadable fetch_history_def)
  next
    case f
    then show ?thesis by (simp add: body_not_pending fetch_history_def)
  next
    case g
    then show ?thesis by (simp add: body_missing_mac fetch_history_def)
  next
    case k
    then show ?thesis by (simp add: body_pending fetch_history_def Let_def)
  qed
qed

lemma foldl_body_extends:
  "\<exists>es more. foldl (\<lambda>s j. queue_loop_body del env j s) (h, ids) js = (h @ es, ids @ more)
     \<and> filter is_delete es = []"
proof (induction js arbitrary: h ids)
  case Nil
  show ?case by simp
next
  case (Cons j js)
  obtain es more where b: "queue_loop_body del env j (h, ids) = (h @ es, ids @ more)"
    and d: "filter is_delete es = []"
    using body_extends by blast
  obtain es' more' where
    "foldl (\<lambda>s j. queue_loop_body del env j s) (h @ es, ids @ more) js
       = ((h @ es) @ es', (ids @ more) @ more')"
    and "filter is_delete es' = []"
    using Cons.IH by blast
  with b d show ?case
    by (intro exI [of _ "es @ es'"] exI [of _ "more @ more'"]) simp
qed

lemma queue_loop_extends:
  "\<exists>es more. queue_loop del env i n (h, ids) = (h @ es, ids @ more) \<and> filter is_delete es = []"
  unfolding queue_loop_foldl by (rule foldl_body_extends)

lemma delete_loop_Cons_ok:
  assumes "ok (rtdb_reply env
             (h @ [Serial_printf ''  Deleting node: %s\<newline>'' [S (FIREBASE_QUEUE_PATH @ ''/'' @ t)],
                   RTDB_deleteNode (FIREBASE_QUEUE_PATH @ ''/'' @ t)]))"
  shows "delete_loop env (t # ids) h =
     delete_loop env ids
       (h @ [Serial_printf ''  Deleting node: %s\<newline>'' [S (FIREBASE_QUEUE_PATH @ ''/'' @ t)],
             RTDB_deleteNode (FIREBASE_QUEUE_PATH @ ''/'' @ t)])"
  using assms by (simp add: Let_def)

lemma delete_loop_Cons_failed:
  assumes "\<not> ok (rtdb_reply env
             (h @ [Serial_printf ''  Deleting node: %s\<newline>'' [S (FIREBASE_QUEUE_PATH @ ''/'' @ t)],
                   RTDB_deleteNode (FIREBASE_QUEUE_PATH @ ''/'' @ t)]))"
  shows "delete_loop env (t # ids) h =
     delete_loop env ids
       (h @ [Serial_printf ''  Deleting node: %s\<newline>'' [S (FIREBASE_QUEUE_PATH @ ''/'' @ t)],
             RTDB_deleteNode (FIREBASE_QUEUE_PATH @ ''/'' @ t),
             Serial_printf ''[ERROR] Failed to delete task '%s': %s\<newline>''
               [S t, S (errorReason (rtdb_reply env
                  (h @ [Serial_printf ''  Deleting node: %s\<newline>''
                          [S (FIREBASE_QUEUE_PATH @ ''/'' @ t)],
                        RTDB_deleteNode (FIREBASE_QUEUE_PATH @ ''/'' @ t)])))]])"
  using assms by (simp add: Let_def)

lemma delete_loop_requests:
  "\<exists>es. delete_loop env ids h = h @ es
     \<and> filter is_store_write es = map (\<lambda>t. RTDB_deleteNode (FIREBASE_QUEUE_PATH @ ''/'' @ t)) ids
     \<and> filter is_packet es = []"
proof (induction ids arbitrary: h)
  case Nil
  show ?case by simp
next
  case (Cons t ids)
  let ?h1 = "h @ [Serial_printf ''  Deleting node: %s\<newline>'' [S (FIREBASE_QUEUE_PATH @ ''/'' @ t)],
                  RTDB_deleteNode (FIREBASE_QUEUE_PATH @ ''/'' @ t)]"
  show ?case
  proof (cases "ok (rtdb_reply env ?h1)")
    case True
    obtain es where "delete_loop env ids ?h1 = ?h1 @ es"
      and "filter is_store_write es = map (\<lambda>t. RTDB_deleteNode (FIREBASE_QUEUE_PATH @ ''/'' @ t)) ids"
      and "filter is_packet es = []"
      using Cons.IH by blast
    then show ?thesis
      by (simp add: delete_loop_Cons_ok [OF True] del: delete_loop.simps)
  next
    case False
    let ?h2 = "?h1 @ [Serial_printf ''[ERROR] Failed to delete task '%s': %s\<newline>''
                        [S t, S (errorReason (rtdb_reply env ?h1))]]"
    obtain es where "delete_loop env ids ?h2 = ?h2 @ es"
      and "filter is_store_write es = map (\<lambda>t. RTDB_deleteNode (FIREBASE_QUEUE_PATH @ ''/'' @ t)) ids"
      and "filter is_packet es = []"
      using Cons.IH by blast
    then show ?thesis
      by (simp add: delete_loop_Cons_failed [OF False] del: delete_loop.simps)
  qed
qed

lemma processWolQueue_nonempty:
  fixes del env h
  defines "h1 \<equiv> h @ [Firebase_ready,
                      Serial_printf ''[QUEUE] Checking WOL queue at %s...\<newline>''
                        [S FIREBASE_QUEUE_PATH],
                      RTDB_getJSON FIREBASE_QUEUE_PATH]"
  defines "n \<equiv> iteratorBegin_reply env (h1 @ [Json_iteratorBegin])"
  defines "fin \<equiv> queue_loop del env 0 n
                    (h1 @ [Json_iteratorBegin,
                           Serial_printf ''  Found %d potential tasks.\<newline>'' [U n]], [])"
  assumes "ready_reply env (h @ [Firebase_ready])" and "ok (rtdb_reply env h1)" and "0 < n"
  shows "processWolQueue del env h =
     (if del \<and> snd fin \<noteq> [] then
        delete_loop env (snd fin)
          (fst fin @ [Json_iteratorEnd,
                      Serial_printf ''[QUEUE] Deleting %d completed tasks...\<newline>''
                        [U (length (snd fin))]])
      else fst fin @ [Json_iteratorEnd])
     @ [Serial_println ''[QUEUE] Queue check finished.'']"
  using assms(4-) unfolding h1_def n_def fin_def
  by (cases del) (simp_all add: processWolQueue_def Let_def case_prod_beta)

lemma sendWOL_calls_effects:
  "filter (\<lambda>e. is_packet e \<or> is_store_write e) (sendWOL_calls env mac h) =
     filter is_packet (sendWOL_calls env mac h)"
  by (cases "length mac = 17") (simp_all add: sendWOL_calls_17 sendWOL_calls_not_17)

text \<open>The concrete environment, evaluated.\<close>

lemma demo_last [simp]:
  "demo_iteratorGet (h @ [Json_iteratorGet i]) =
     (if i < 7 then demo_entries ! i else (JSON_UNDEFINED, []))"
  "demo_rtdb (h @ [RTDB_get p]) = demo_task p"
  "demo_rtdb (h @ [a, RTDB_get p]) = demo_task p"
  "demo_rtdb (h @ [a, b, RTDB_get p]) = demo_task p"
  "demo_rtdb (h @ [RTDB_setString p v]) =
     (if p = ''/wol/queue/t6/status'' then reply_failed (- 1) [] ''connection lost''
      else reply_ok rtdb_null ''null'' (\<lambda>k. json_absent))"
  "demo_rtdb (h @ [a, RTDB_setString p v]) =
     (if p = ''/wol/queue/t6/status'' then reply_failed (- 1) [] ''connection lost''
      else reply_ok rtdb_null ''null'' (\<lambda>k. json_absent))"
  by (simp_all add: demo_iteratorGet_def demo_rtdb_def demo_entries_def)

lemma demo_observed:
  "entry_reply demo_env i h = (if i < 7 then demo_entries ! i else (JSON_UNDEFINED, []))"
  "fetched demo_env i h = demo_task (task_path demo_env i h)"
  by (simp_all add: entry_reply_def fetched_def fetch_history_def)

lemma demo_t1:
  "task_id demo_env 0 h = ''t1''"
  "task_path demo_env 0 h = ''/wol/queue/t1''"
  "status_is demo_env 0 h ''pending''"
  "field_readable (fetched demo_env 0 h) ''mac''"
  "field_string (fetched demo_env 0 h) ''mac'' = ''AA:BB:CC:DD:EE:FF''"
  "extract_delayMs demo_env (fetched demo_env 0 h) = 1000"
  by (simp_all add: status_is_def task_fetched_def task_id_def task_path_def demo_observed
      field_readable_def field_string_def extract_delayMs_def
      demo_entries_def demo_task_def reply_ok_def json_field_def json_absent_def
      FIREBASE_QUEUE_PATH_def)

lemmas demo_eval =
  status_is_def task_fetched_def task_id_def task_path_def demo_observed
  field_readable_def field_string_def extract_delayMs_def
  demo_entries_def demo_task_def reply_ok_def reply_failed_def json_field_def json_absent_def
  json_unreadable_def FIREBASE_QUEUE_PATH_def

lemma demo_t2:
  "task_id demo_env (Suc 0) h = ''t2''"
  "task_path demo_env (Suc 0) h = ''/wol/queue/t2''"
  "status_is demo_env (Suc 0) h ''pending''"
  "\<not> field_readable (fetched demo_env (Suc 0) h) ''mac''"
  by (simp_all add: demo_eval)

lemma demo_t3:
  "task_id demo_env 2 h = ''t3''"
  "task_path demo_env 2 h = ''/wol/queue/t3''"
  "status_is demo_env 2 h ''done''"
  by (simp_all add: demo_eval)













text \<open>An invocation of \<open>processWolQueue\<close>, seen from the index the loop has reached.\<close>

lemma body_starts:
  "\<exists>es. fst (queue_loop_body del env i (h, ids)) = h @ Json_iteratorGet i # es"
proof -
  let ?r = "fetched env i h"
  consider
      (a) "fst (entry_reply env i h) \<noteq> JSON_OBJECT"
    | (b) "fst (entry_reply env i h) = JSON_OBJECT" "\<not> ok ?r"
    | (c) "fst (entry_reply env i h) = JSON_OBJECT" "ok ?r" "dataTypeEnum ?r \<noteq> rtdb_json"
    | (d) "task_fetched env i h" "\<not> fst (jsonObject ?r ''status'')"
    | (e) "task_fetched env i h" "fst (jsonObject ?r ''status'')"
          "\<not> success (snd (jsonObject ?r ''status''))"
    | (f) "status_is env i h (field_string ?r ''status'')" "field_string ?r ''status'' \<noteq> ''pending''"
    | (g) "status_is env i h ''pending''" "\<not> field_readable ?r ''mac''"
    | (k) "status_is env i h ''pending''" "field_readable ?r ''mac''"
    unfolding status_is_def task_fetched_def field_readable_def by blast
  then show ?thesis
  proof cases
    case a
    then show ?thesis by (simp add: body_not_object)
  next
    case b
    then show ?thesis by (simp add: body_fetch_failed fetch_history_def)
  next
    case c
    then show ?thesis by (simp add: body_not_json fetch_history_def)
  next
    case d
    then show ?thesis by (simp add: body_status_absent fetch_history_def)
  next
    case e
    then show ?thesis by (simp add: body_status_unreadable fetch_history_def)
  next
    case f
    then show ?thesis by (simp add: body_not_pending fetch_history_def)
  next
    case g
    then show ?thesis by (simp add: body_missing_mac fetch_history_def)
  next
    case k
    then show ?thesis by (simp add: body_pending fetch_history_def Let_def)
  qed
qed

lemma queue_loop_starts:
  assumes "i < n"
  shows "\<exists>es. fst (queue_loop del env i n (h, ids)) = h @ Json_iteratorGet i # es"
proof -
  obtain es where b: "fst (queue_loop_body del env i (h, ids)) = h @ Json_iteratorGet i # es"
    using body_starts by blast
  obtain hb idsb where st: "queue_loop_body del env i (h, ids) = (hb, idsb)"
    by (cases "queue_loop_body del env i (h, ids)")
  obtain es' where "fst (queue_loop del env (Suc i) n (hb, idsb)) = hb @ es'"
    using queue_loop_extends [of del env "Suc i" n hb idsb] by auto
  with b st assms show ?thesis
    by (simp add: queue_loop_step)
qed

lemma loop_state_Suc:
  "loop_state del env h (Suc i) = queue_loop_body del env i (loop_state del env h i)"
  by (simp add: loop_state_def queue_loop_foldl)

lemma loop_state_0: "loop_state del env h 0 = (pass_start env h, [])"
  by (simp add: loop_state_def queue_loop_done)

lemma loop_state_extends: "\<exists>earlier. fst (loop_state del env h i) = pass_start env h @ earlier"
  using queue_loop_extends [of del env 0 i "pass_start env h" "[]"]
  by (auto simp add: loop_state_def)

lemma processWolQueue_pass:
  assumes "ready_reply env (h @ [Firebase_ready])" and "ok (bulk_read env h)"
    and "0 < task_count env h"
  shows "\<exists>tail. processWolQueue del env h =
           fst (loop_state del env h (task_count env h)) @ Json_iteratorEnd # tail"
proof -
  let ?fin = "loop_state del env h (task_count env h)"
  let ?g = "fst ?fin @ [Json_iteratorEnd,
                        Serial_printf ''[QUEUE] Deleting %d completed tasks...\<newline>''
                          [U (length (snd ?fin))]]"
  have raw: "processWolQueue del env h =
     (if del \<and> snd ?fin \<noteq> [] then delete_loop env (snd ?fin) ?g
      else fst ?fin @ [Json_iteratorEnd])
     @ [Serial_println ''[QUEUE] Queue check finished.'']"
    using assms
    by (cases del)
      (simp_all add: processWolQueue_def Let_def case_prod_beta loop_state_def pass_start_def
        task_count_def bulk_read_def)
  obtain es where "delete_loop env (snd ?fin) ?g = ?g @ es"
    using delete_loop_requests [of env "snd ?fin" ?g] by blast
  then show ?thesis
    unfolding raw by (cases "del \<and> snd ?fin \<noteq> []") auto
qed

lemma processWolQueue_at_index:
  assumes "ready_reply env (h @ [Firebase_ready])" and "ok (bulk_read env h)"
    and "i < task_count env h"
  shows "\<exists>rest. processWolQueue del env h =
           fst (queue_loop_body del env i (loop_state del env h i))
           @ (if Suc i < task_count env h then Json_iteratorGet (Suc i) else Json_iteratorEnd)
           # rest"
proof -
  let ?n = "task_count env h"
  obtain hb idsb where b: "queue_loop_body del env i (loop_state del env h i) = (hb, idsb)"
    by (cases "queue_loop_body del env i (loop_state del env h i)")
  have fin: "loop_state del env h ?n = queue_loop del env (Suc i) ?n (hb, idsb)"
  proof -
    have "loop_state del env h ?n = queue_loop del env (Suc i) ?n (loop_state del env h (Suc i))"
      unfolding loop_state_def using assms(3) by (intro queue_loop_split) simp_all
    then show ?thesis
      by (simp add: loop_state_Suc b)
  qed
  obtain tail where p: "processWolQueue del env h = fst (loop_state del env h ?n) @ Json_iteratorEnd # tail"
    using processWolQueue_pass [OF assms(1,2)] assms(3) by force
  show ?thesis
  proof (cases "Suc i < ?n")
    case True
    then obtain es where "fst (queue_loop del env (Suc i) ?n (hb, idsb)) = hb @ Json_iteratorGet (Suc i) # es"
      using queue_loop_starts by blast
    with p fin b True show ?thesis
      by simp
  next
    case False
    with assms(3) have "queue_loop del env (Suc i) ?n (hb, idsb) = (hb, idsb)"
      by (simp add: queue_loop_done)
    with p fin b False show ?thesis
      by simp
  qed
qed

lemma demo_pass [simp]:
  "ok (bulk_read demo_env h)"
  "task_count demo_env h = 7"
  by (simp_all add: bulk_read_def task_count_def demo_rtdb_def demo_task_def reply_ok_def
      FIREBASE_QUEUE_PATH_def)

lemma demo_loop_state_1: "loop_state False demo_env [] (Suc 0) = (demo_after_t1, [])"
  by code_simp

subsection \<open>Packet Dispatcher\<close>

text \<open>
  C5. For every valid colon-separated hexadecimal hardware address of 17 characters,
  \<open>sendWOL\<close> asks for the device's own IPv4 address once, forms the broadcast address by
  setting its last octet to 255, and hands the wake packet to the sender exactly three
  times, each time with that broadcast address and each time followed by a pause of 50 ms,
  so that 50 ms lie between consecutive emissions. Nothing else is called but the one log
  line.
\<close>

theorem sendWOL_valid_mac_three_packets:
  assumes "spec_valid_mac mac"
    and "localIP_reply env (h @ [WiFi_localIP]) = IPAddress a b c d"
  shows "sendWOL env (Some mac) h =
     h @ [WiFi_localIP,
          Serial_printf ''[INFO] Sending WOL Magic Packet to MAC: %s via Broadcast IP: %s\<newline>''
            [S mac, Addr (IPAddress a b c 255)],
          WOL_sendMagicPacket mac (IPAddress a b c 255), Delay 50,
          WOL_sendMagicPacket mac (IPAddress a b c 255), Delay 50,
          WOL_sendMagicPacket mac (IPAddress a b c 255), Delay 50]"
  using assms by (simp add: sendWOL_length_17 spec_valid_mac_length)

theorem sendWOL_valid_mac_three_packets_witness:
  "spec_valid_mac ''AA:BB:CC:DD:EE:FF'' \<and>
   localIP_reply demo_env ([] @ [WiFi_localIP]) = IPAddress 192 168 1 42 \<and>
   sendWOL demo_env (Some ''AA:BB:CC:DD:EE:FF'') [] =
     [WiFi_localIP,
      Serial_printf ''[INFO] Sending WOL Magic Packet to MAC: %s via Broadcast IP: %s\<newline>''
        [S ''AA:BB:CC:DD:EE:FF'', Addr (IPAddress 192 168 1 255)],
      WOL_sendMagicPacket ''AA:BB:CC:DD:EE:FF'' (IPAddress 192 168 1 255), Delay 50,
      WOL_sendMagicPacket ''AA:BB:CC:DD:EE:FF'' (IPAddress 192 168 1 255), Delay 50,
      WOL_sendMagicPacket ''AA:BB:CC:DD:EE:FF'' (IPAddress 192 168 1 255), Delay 50]"
proof -
  have v: "spec_valid_mac ''AA:BB:CC:DD:EE:FF''"
    by code_simp
  have ip: "localIP_reply demo_env ([] @ [WiFi_localIP]) = IPAddress 192 168 1 42"
    by simp
  from sendWOL_valid_mac_three_packets [OF v ip] v ip show ?thesis
    by simp
qed

text \<open>
  C6, as amended. The guard of \<open>sendWOL\<close> is \<open>!macAddress || strlen(macAddress) != 17\<close>: it
  rejects the null pointer and every string whose length is not 17, and nothing else. For
  every such input \<open>sendWOL\<close> makes one call only, the log line that reports the invalid
  address, hands no packet to the sender, and returns.
\<close>

theorem sendWOL_rejects_other_lengths:
  assumes "macAddress = None \<or> (\<exists>mac. macAddress = Some mac \<and> length mac \<noteq> 17)"
  shows "sendWOL env macAddress h =
     h @ [Serial_printf ''[ERROR] Invalid MAC address format for WOL: %s\<newline>''
            [S (case macAddress of None \<Rightarrow> ''NULL'' | Some mac \<Rightarrow> mac)]]
     \<and> filter is_packet (emitted h (sendWOL env macAddress h)) = []"
  using assms by (auto simp add: sendWOL_def)

theorem sendWOL_rejects_other_lengths_witness:
  "sendWOL demo_env (Some ''bad-mac'') [] =
     [Serial_printf ''[ERROR] Invalid MAC address format for WOL: %s\<newline>'' [S ''bad-mac'']]
   \<and> filter is_packet (emitted [] (sendWOL demo_env (Some ''bad-mac'') [])) = []
   \<and> sendWOL demo_env None [] =
     [Serial_printf ''[ERROR] Invalid MAC address format for WOL: %s\<newline>'' [S ''NULL'']]"
  using sendWOL_rejects_other_lengths [of "Some ''bad-mac''" demo_env "[]"]
    sendWOL_rejects_other_lengths [of None demo_env "[]"]
  by simp

text \<open>
  C6 as stated fails: a string of 17 characters passes the guard whatever its characters
  are. \<open>AA-BB-CC-DD-EE-FF\<close>, with hyphens for colons, is not a colon-separated address, and
  \<open>sendWOL\<close> hands it to the sender three times.
\<close>

theorem sendWOL_17_chars_not_mac_counterexample:
  "\<not> spec_valid_mac ''AA-BB-CC-DD-EE-FF'' \<and>
   filter is_packet (sendWOL demo_env (Some ''AA-BB-CC-DD-EE-FF'') []) =
     [WOL_sendMagicPacket ''AA-BB-CC-DD-EE-FF'' (IPAddress 192 168 1 255),
      WOL_sendMagicPacket ''AA-BB-CC-DD-EE-FF'' (IPAddress 192 168 1 255),
      WOL_sendMagicPacket ''AA-BB-CC-DD-EE-FF'' (IPAddress 192 168 1 255)]"
proof -
  have "\<not> spec_valid_mac ''AA-BB-CC-DD-EE-FF''"
    by code_simp
  moreover have "length ''AA-BB-CC-DD-EE-FF'' = 17"
    by simp
  ultimately show ?thesis
    by (simp add: sendWOL_length_17)
qed

subsection \<open>Trigger Watcher\<close>

text \<open>
  C4. When the notification carries the boolean \<open>true\<close>, the callback calls \<open>sendWOL\<close> once,
  with the fixed address \<open>DIRECT_TRIGGER_TARGET_MAC\<close> and not with anything taken from the
  notification, and after it writes \<open>false\<close> to the flag path; the packets of that one
  dispatch and the one write are all it sends or writes, in this order. When the
  notification is anything else (not a boolean, or the boolean \<open>false\<close>) the callback only
  logs the notification: no packet and no write.
\<close>

theorem stream_true_dispatches_once_then_resets:
  fixes env d h
  defines "h2 \<equiv>
     h @ [Serial_printf ''[STREAM] Path: %s, Type: %s, Value: %s\<newline>''
            [S (stream_dataPath d), S (stream_dataType d), S (stream_stringData d)],
          Serial_printf ''[INFO] Direct WOL Trigger received for path: %s\<newline>''
            [S FIREBASE_DIRECT_TRIGGER_PATH]]"
  defines "h4 \<equiv>
     sendWOL env (Some DIRECT_TRIGGER_TARGET_MAC) h2
     @ [Serial_printf ''  Resetting trigger flag '%s' to false...\<newline>''
          [S FIREBASE_DIRECT_TRIGGER_PATH],
        RTDB_setBool FIREBASE_DIRECT_TRIGGER_PATH False]"
  defines "ip \<equiv> set_octet3 (localIP_reply env (h2 @ [WiFi_localIP])) 255"
  shows "(stream_dataTypeEnum d = rtdb_boolean \<and> stream_boolData d \<longrightarrow>
            firebaseStreamCallback env d h =
              h4 @ [if ok (rtdb_reply env h4)
                    then Serial_println ''  Trigger flag reset successfully.''
                    else Serial_printf ''[ERROR] Failed to reset trigger flag: %s\<newline>''
                           [S (errorReason (rtdb_reply env h4))]]
            \<and> filter (\<lambda>e. is_packet e \<or> is_store_write e)
                 (emitted h (firebaseStreamCallback env d h)) =
                [WOL_sendMagicPacket DIRECT_TRIGGER_TARGET_MAC ip,
                 WOL_sendMagicPacket DIRECT_TRIGGER_TARGET_MAC ip,
                 WOL_sendMagicPacket DIRECT_TRIGGER_TARGET_MAC ip,
                 RTDB_setBool FIREBASE_DIRECT_TRIGGER_PATH False])
       \<and> (\<not> (stream_dataTypeEnum d = rtdb_boolean \<and> stream_boolData d) \<longrightarrow>
            firebaseStreamCallback env d h =
              h @ [Serial_printf ''[STREAM] Path: %s, Type: %s, Value: %s\<newline>''
                     [S (stream_dataPath d), S (stream_dataType d), S (stream_stringData d)]]
            \<and> filter (\<lambda>e. is_packet e \<or> is_store_write e)
                 (emitted h (firebaseStreamCallback env d h)) = [])"
proof -
  have len: "length DIRECT_TRIGGER_TARGET_MAC = 17"
    by (simp add: DIRECT_TRIGGER_TARGET_MAC_def)
  show ?thesis
    unfolding h4_def h2_def ip_def
    by (simp add: firebaseStreamCallback_def Let_def sendWOL_length_17 [OF len])
qed

theorem stream_true_dispatches_once_then_resets_witness:
  "filter (\<lambda>e. is_packet e \<or> is_store_write e)
     (emitted [] (firebaseStreamCallback demo_env (demo_stream True) [])) =
     [WOL_sendMagicPacket ''00:00:00:00:00:00'' (IPAddress 192 168 1 255),
      WOL_sendMagicPacket ''00:00:00:00:00:00'' (IPAddress 192 168 1 255),
      WOL_sendMagicPacket ''00:00:00:00:00:00'' (IPAddress 192 168 1 255),
      RTDB_setBool ''/wol/proxmox'' False]
   \<and> firebaseStreamCallback demo_env (demo_stream False) [] =
     [Serial_printf ''[STREAM] Path: %s, Type: %s, Value: %s\<newline>''
        [S ''/'', S ''boolean'', S ''false'']]"
proof -
  have t: "stream_dataTypeEnum (demo_stream True) = rtdb_boolean \<and> stream_boolData (demo_stream True)"
    by (simp add: demo_stream_def)
  have f: "\<not> (stream_dataTypeEnum (demo_stream False) = rtdb_boolean
               \<and> stream_boolData (demo_stream False))"
    by (simp add: demo_stream_def)
  from stream_true_dispatches_once_then_resets
    [of "demo_stream True" demo_env "[]", THEN conjunct1, THEN mp, OF t, THEN conjunct2]
  have "filter (\<lambda>e. is_packet e \<or> is_store_write e)
     (emitted [] (firebaseStreamCallback demo_env (demo_stream True) [])) =
     [WOL_sendMagicPacket ''00:00:00:00:00:00'' (IPAddress 192 168 1 255),
      WOL_sendMagicPacket ''00:00:00:00:00:00'' (IPAddress 192 168 1 255),
      WOL_sendMagicPacket ''00:00:00:00:00:00'' (IPAddress 192 168 1 255),
      RTDB_setBool ''/wol/proxmox'' False]"
    by (simp add: DIRECT_TRIGGER_TARGET_MAC_def FIREBASE_DIRECT_TRIGGER_PATH_def)
  moreover from stream_true_dispatches_once_then_resets
    [of "demo_stream False" demo_env "[]", THEN conjunct2, THEN mp, OF f, THEN conjunct1]
  have "firebaseStreamCallback demo_env (demo_stream False) [] =
     [Serial_printf ''[STREAM] Path: %s, Type: %s, Value: %s\<newline>''
        [S ''/'', S ''boolean'', S ''false'']]"
    by (simp add: demo_stream_def)
  ultimately show ?thesis
    by simp
qed

subsection \<open>Queue Processor: one task\<close>

text \<open>
  When the store is ready, the bulk read succeeds and the iterator reports at least one
  entry, \<open>processWolQueue\<close> runs \<open>queue_loop\<close> from index 0, and \<open>queue_loop\<close> applies
  \<open>queue_loop_body\<close> to every index in turn (lemmas \<open>processWolQueue_pass\<close>,
  \<open>queue_loop_foldl\<close>). Lemma \<open>processWolQueue_at_index\<close> puts the two together: the
  history of the invocation is the history the body leaves at index \<open>i\<close>, followed by the
  iterator call for the next index, or by \<open>iteratorEnd\<close> after the last one.
\<close>

text \<open>
  C1. Take an invocation of \<open>processWolQueue\<close> entered with the history \<open>h\<close>, with the
  store ready and the bulk read successful, and an index \<open>i\<close> below the task count. Let
  \<open>hi\<close> be the history with which the loop reaches \<open>i\<close>; it extends the history at the
  start of the loop by the calls made for the entries before \<open>i\<close>. If the entry at \<open>i\<close> is
  an object whose fetch succeeds, whose status reads \<open>pending\<close> and whose \<open>mac\<close> field is
  readable, then the history of the whole invocation begins with \<open>hi\<close>, followed, in this
  order, by: the fetch and its log lines; if the delay \<open>d\<close> is positive, the call
  \<open>delay(d)\<close>; one call of \<open>sendWOL\<close> with the task's \<open>mac\<close>; the write of \<open>done\<close> to the
  task's status and the log line for its outcome; and only then the iterator call for
  index \<open>i + 1\<close> (or \<open>iteratorEnd\<close> when \<open>i\<close> was the last index), so nothing of a later task
  begins before this task is finished. The packets of that one \<open>sendWOL\<close> call and the write
  of \<open>done\<close> are all that is sent or written for the task. The delay \<open>d\<close> is never negative,
  it is 0 when the field is not readable, and otherwise it is the field coerced to an
  integer (\<open>intValue\<close> for a number, \<open>toInt\<close> of the string otherwise) with negative values
  replaced by 0.
\<close>

theorem pending_task_waits_dispatches_marks_done:
  fixes del env h i
  defines "n \<equiv> task_count env h"
  defines "hi \<equiv> fst (loop_state del env h i)"
  defines "r \<equiv> fetched env i hi"
  defines "mac \<equiv> field_string r ''mac''"
  defines "d \<equiv> extract_delayMs env r"
  defines "h5 \<equiv>
     fetch_history env i hi
     @ [Serial_printf ''    Task '%s' has status 'pending'. Processing...\<newline>''
          [S (task_id env i hi)],
        Serial_printf ''      MAC: %s, Delay: %d ms\<newline>'' [S mac, I d]]
     @ (if 0 < d then [Serial_printf ''      Applying delay of %d ms...\<newline>'' [I d], Delay d]
        else [])"
  defines "h7 \<equiv>
     sendWOL env (Some mac) h5
     @ [Serial_printf ''      Updating status to 'done'...\<newline>'' [],
        RTDB_setString (task_path env i hi @ ''/status'') ''done'']"
  defines "h8 \<equiv>
     h7 @ [if ok (rtdb_reply env h7)
           then Serial_printf ''    Task '%s' completed successfully.\<newline>''
                  [S (task_id env i hi)]
           else Serial_printf
                  ''[ERROR] Task '%s': Failed to update status to 'done': %s\<newline>''
                  [S (task_id env i hi), S (errorReason (rtdb_reply env h7))]]"
  assumes ready: "ready_reply env (h @ [Firebase_ready])"
    and read: "ok (bulk_read env h)"
    and reached: "i < n"
    and pending: "status_is env i hi ''pending''"
    and mac_ok: "field_readable r ''mac''"
  shows "(\<exists>rest. processWolQueue del env h =
            h8 @ (if Suc i < n then Json_iteratorGet (Suc i) else Json_iteratorEnd) # rest)
       \<and> (\<exists>earlier. hi = pass_start env h @ earlier)
       \<and> fst (loop_state del env h (Suc i)) = h8
       \<and> filter (\<lambda>e. is_packet e \<or> is_store_write e) (emitted hi h8) =
           filter is_packet (sendWOL_calls env mac h5)
           @ [RTDB_setString (task_path env i hi @ ''/status'') ''done'']
       \<and> 0 \<le> d
       \<and> (\<not> field_readable r ''delay'' \<longrightarrow> d = 0)
       \<and> (field_readable r ''delay'' \<longrightarrow>
            d = max 0 (if typeNum (snd (jsonObject r ''delay'')) = JSON_INT
                          \<or> typeNum (snd (jsonObject r ''delay'')) = JSON_FLOAT
                       then intValue (snd (jsonObject r ''delay''))
                       else toInt env (field_string r ''delay'')))"
proof -
  obtain idsi where st: "loop_state del env h i = (hi, idsi)"
    unfolding hi_def by (cases "loop_state del env h i") simp
  have body: "fst (queue_loop_body del env i (hi, idsi)) = h8"
    using pending mac_ok unfolding r_def mac_def d_def h5_def h7_def h8_def
    by (simp add: body_pending Let_def sendWOL_Some_eq)
  have pass: "\<exists>rest. processWolQueue del env h =
            h8 @ (if Suc i < n then Json_iteratorGet (Suc i) else Json_iteratorEnd) # rest"
    using processWolQueue_at_index [OF ready read reached [unfolded n_def], of del]
    unfolding n_def st body .
  have before: "\<exists>earlier. hi = pass_start env h @ earlier"
    unfolding hi_def by (rule loop_state_extends)
  have after: "fst (loop_state del env h (Suc i)) = h8"
    by (simp add: loop_state_Suc st body)
  define pre where "pre =
     [Json_iteratorGet i,
      Serial_printf ''  Inspecting Task ID: %s (Path: %s)\<newline>''
        [S (task_id env i hi), S (task_path env i hi)],
      RTDB_get (task_path env i hi),
      Serial_printf ''    Task '%s' has status 'pending'. Processing...\<newline>''
        [S (task_id env i hi)],
      Serial_printf ''      MAC: %s, Delay: %d ms\<newline>'' [S mac, I d]]
     @ (if 0 < d then [Serial_printf ''      Applying delay of %d ms...\<newline>'' [I d], Delay d]
        else [])"
  have h5: "h5 = hi @ pre"
    unfolding h5_def pre_def by (simp add: fetch_history_def)
  have pre: "filter (\<lambda>e. is_packet e \<or> is_store_write e) pre = []"
    unfolding pre_def by simp
  have h7: "h7 = hi @ pre @ sendWOL_calls env mac h5
                 @ [Serial_printf ''      Updating status to 'done'...\<newline>'' [],
                    RTDB_setString (task_path env i hi @ ''/status'') ''done'']"
    unfolding h7_def by (simp add: sendWOL_Some_eq h5)
  have effects: "filter (\<lambda>e. is_packet e \<or> is_store_write e) (emitted hi h8) =
           filter is_packet (sendWOL_calls env mac h5)
           @ [RTDB_setString (task_path env i hi @ ''/status'') ''done'']"
    unfolding h8_def by (simp add: h7 pre sendWOL_calls_effects)
  have d0: "0 \<le> d"
    unfolding d_def by (rule extract_delayMs_nonneg)
  have d1: "\<not> field_readable r ''delay'' \<longrightarrow> d = 0"
    unfolding d_def by (simp add: extract_delayMs_def field_readable_def case_prod_beta)
  have d2: "field_readable r ''delay'' \<longrightarrow>
            d = max 0 (if typeNum (snd (jsonObject r ''delay'')) = JSON_INT
                          \<or> typeNum (snd (jsonObject r ''delay'')) = JSON_FLOAT
                       then intValue (snd (jsonObject r ''delay''))
                       else toInt env (field_string r ''delay''))"
    unfolding d_def
    by (simp add: extract_delayMs_def field_readable_def field_string_def case_prod_beta Let_def)
  from pass before after effects d0 d1 d2 show ?thesis
    by blast
qed

theorem pending_task_waits_dispatches_marks_done_witness:
  "ready_reply demo_env ([] @ [Firebase_ready])
   \<and> ok (bulk_read demo_env [])
   \<and> 0 < task_count demo_env []
   \<and> status_is demo_env 0 (fst (loop_state True demo_env [] 0)) ''pending''
   \<and> field_readable (fetched demo_env 0 (fst (loop_state True demo_env [] 0))) ''mac''
   \<and> (\<exists>rest. processWolQueue True demo_env [] =
       [Firebase_ready,
        Serial_printf ''[QUEUE] Checking WOL queue at %s...\<newline>'' [S ''/wol/queue''],
        RTDB_getJSON ''/wol/queue'',
        Json_iteratorBegin,
        Serial_printf ''  Found %d potential tasks.\<newline>'' [U 7],
        Json_iteratorGet 0,
        Serial_printf ''  Inspecting Task ID: %s (Path: %s)\<newline>'' [S ''t1'', S ''/wol/queue/t1''],
        RTDB_get ''/wol/queue/t1'',
        Serial_printf ''    Task '%s' has status 'pending'. Processing...\<newline>'' [S ''t1''],
        Serial_printf ''      MAC: %s, Delay: %d ms\<newline>'' [S ''AA:BB:CC:DD:EE:FF'', I 1000],
        Serial_printf ''      Applying delay of %d ms...\<newline>'' [I 1000],
        Delay 1000,
        WiFi_localIP,
        Serial_printf ''[INFO] Sending WOL Magic Packet to MAC: %s via Broadcast IP: %s\<newline>''
          [S ''AA:BB:CC:DD:EE:FF'', Addr (IPAddress 192 168 1 255)],
        WOL_sendMagicPacket ''AA:BB:CC:DD:EE:FF'' (IPAddress 192 168 1 255), Delay 50,
        WOL_sendMagicPacket ''AA:BB:CC:DD:EE:FF'' (IPAddress 192 168 1 255), Delay 50,
        WOL_sendMagicPacket ''AA:BB:CC:DD:EE:FF'' (IPAddress 192 168 1 255), Delay 50,
        Serial_printf ''      Updating status to 'done'...\<newline>'' [],
        RTDB_setString ''/wol/queue/t1/status'' ''done'',
        Serial_printf ''    Task '%s' completed successfully.\<newline>'' [S ''t1''],
        Json_iteratorGet 1] @ rest)"
proof -
  have ready: "ready_reply demo_env ([] @ [Firebase_ready])"
    by simp
  have read: "ok (bulk_read demo_env [])"
    by simp
  have n: "0 < task_count demo_env []"
    by simp
  have p: "status_is demo_env 0 (fst (loop_state True demo_env [] 0)) ''pending''"
    and m: "field_readable (fetched demo_env 0 (fst (loop_state True demo_env [] 0))) ''mac''"
    by (rule demo_t1)+
  have len: "length ''AA:BB:CC:DD:EE:FF'' = 17"
    by simp
  from pending_task_waits_dispatches_marks_done [OF ready read n p m, THEN conjunct1]
  have "\<exists>rest. processWolQueue True demo_env [] =
       [Firebase_ready,
        Serial_printf ''[QUEUE] Checking WOL queue at %s...\<newline>'' [S ''/wol/queue''],
        RTDB_getJSON ''/wol/queue'',
        Json_iteratorBegin,
        Serial_printf ''  Found %d potential tasks.\<newline>'' [U 7],
        Json_iteratorGet 0,
        Serial_printf ''  Inspecting Task ID: %s (Path: %s)\<newline>'' [S ''t1'', S ''/wol/queue/t1''],
        RTDB_get ''/wol/queue/t1'',
        Serial_printf ''    Task '%s' has status 'pending'. Processing...\<newline>'' [S ''t1''],
        Serial_printf ''      MAC: %s, Delay: %d ms\<newline>'' [S ''AA:BB:CC:DD:EE:FF'', I 1000],
        Serial_printf ''      Applying delay of %d ms...\<newline>'' [I 1000],
        Delay 1000,
        WiFi_localIP,
        Serial_printf ''[INFO] Sending WOL Magic Packet to MAC: %s via Broadcast IP: %s\<newline>''
          [S ''AA:BB:CC:DD:EE:FF'', Addr (IPAddress 192 168 1 255)],
        WOL_sendMagicPacket ''AA:BB:CC:DD:EE:FF'' (IPAddress 192 168 1 255), Delay 50,
        WOL_sendMagicPacket ''AA:BB:CC:DD:EE:FF'' (IPAddress 192 168 1 255), Delay 50,
        WOL_sendMagicPacket ''AA:BB:CC:DD:EE:FF'' (IPAddress 192 168 1 255), Delay 50,
        Serial_printf ''      Updating status to 'done'...\<newline>'' [],
        RTDB_setString ''/wol/queue/t1/status'' ''done'',
        Serial_printf ''    Task '%s' completed successfully.\<newline>'' [S ''t1''],
        Json_iteratorGet 1] @ rest"
    by (simp add: demo_t1 sendWOL_length_17 [OF len] fetch_history_def reply_ok_def
        loop_state_0 pass_start_def FIREBASE_QUEUE_PATH_def demo_rtdb_def)
  with ready read n p m show ?thesis
    by blast
qed

text \<open>
  C2. Take an invocation of \<open>processWolQueue\<close> entered with the history \<open>h\<close>, with the
  store ready and the bulk read successful, and an index \<open>i\<close> below the task count; let
  \<open>hi\<close> be the history with which the loop reaches \<open>i\<close>. If the entry at \<open>i\<close> is a fetched
  task whose status reads \<open>pending\<close> and whose \<open>mac\<close> field is absent or unreadable, then the
  history of the whole invocation begins with \<open>hi\<close>, followed by the fetch, two log lines
  and the write of \<open>error_missing_mac\<close> to the task's status, and directly after that write
  by the iterator call for index \<open>i + 1\<close> (or \<open>iteratorEnd\<close> when \<open>i\<close> was the last index):
  the pass continues with the next task. That write is the only write for the task, no
  packet is handed to the sender, and the list of marked ids is unchanged.
\<close>

theorem pending_task_without_mac_is_flagged:
  fixes del env h i
  defines "n \<equiv> task_count env h"
  defines "hi \<equiv> fst (loop_state del env h i)"
  defines "h4 \<equiv>
     fetch_history env i hi
     @ [Serial_printf ''    Task '%s' has status 'pending'. Processing...\<newline>''
          [S (task_id env i hi)],
        Serial_printf ''[WARN] Task '%s': Failed to extract 'mac' field.\<newline>''
          [S (task_id env i hi)],
        RTDB_setString (task_path env i hi @ ''/status'') ''error_missing_mac'']"
  assumes ready: "ready_reply env (h @ [Firebase_ready])"
    and read: "ok (bulk_read env h)"
    and reached: "i < n"
    and pending: "status_is env i hi ''pending''"
    and no_mac: "\<not> field_readable (fetched env i hi) ''mac''"
  shows "(\<exists>rest. processWolQueue del env h =
            h4 @ (if Suc i < n then Json_iteratorGet (Suc i) else Json_iteratorEnd) # rest)
       \<and> (\<exists>earlier. hi = pass_start env h @ earlier)
       \<and> loop_state del env h (Suc i) = (h4, snd (loop_state del env h i))
       \<and> filter (\<lambda>e. is_packet e \<or> is_store_write e) (emitted hi h4) =
           [RTDB_setString (task_path env i hi @ ''/status'') ''error_missing_mac'']"
proof -
  obtain idsi where st: "loop_state del env h i = (hi, idsi)"
    unfolding hi_def by (cases "loop_state del env h i") simp
  have body: "queue_loop_body del env i (hi, idsi) = (h4, idsi)"
    using pending no_mac unfolding h4_def by (simp add: body_missing_mac)
  have pass: "\<exists>rest. processWolQueue del env h =
            h4 @ (if Suc i < n then Json_iteratorGet (Suc i) else Json_iteratorEnd) # rest"
    using processWolQueue_at_index [OF ready read reached [unfolded n_def], of del]
    unfolding n_def st body by simp
  have before: "\<exists>earlier. hi = pass_start env h @ earlier"
    unfolding hi_def by (rule loop_state_extends)
  have after: "loop_state del env h (Suc i) = (h4, snd (loop_state del env h i))"
    by (simp add: loop_state_Suc st body)
  have effects: "filter (\<lambda>e. is_packet e \<or> is_store_write e) (emitted hi h4) =
           [RTDB_setString (task_path env i hi @ ''/status'') ''error_missing_mac'']"
    unfolding h4_def by (simp add: fetch_history_def)
  from pass before after effects show ?thesis
    by blast
qed

theorem pending_task_without_mac_is_flagged_witness:
  "ready_reply demo_env ([] @ [Firebase_ready])
   \<and> ok (bulk_read demo_env [])
   \<and> 1 < task_count demo_env []
   \<and> status_is demo_env 1 (fst (loop_state False demo_env [] 1)) ''pending''
   \<and> \<not> field_readable (fetched demo_env 1 (fst (loop_state False demo_env [] 1))) ''mac''
   \<and> (\<exists>rest. processWolQueue False demo_env [] =
         demo_after_t1
         @ [Json_iteratorGet 1,
            Serial_printf ''  Inspecting Task ID: %s (Path: %s)\<newline>'' [S ''t2'', S ''/wol/queue/t2''],
            RTDB_get ''/wol/queue/t2'',
            Serial_printf ''    Task '%s' has status 'pending'. Processing...\<newline>'' [S ''t2''],
            Serial_printf ''[WARN] Task '%s': Failed to extract 'mac' field.\<newline>'' [S ''t2''],
            RTDB_setString ''/wol/queue/t2/status'' ''error_missing_mac'',
            Json_iteratorGet 2] @ rest)"
proof -
  have ready: "ready_reply demo_env ([] @ [Firebase_ready])"
    by simp
  have read: "ok (bulk_read demo_env [])"
    by simp
  have n: "1 < task_count demo_env []"
    by simp
  have p: "status_is demo_env 1 (fst (loop_state False demo_env [] 1)) ''pending''"
    and m: "\<not> field_readable (fetched demo_env 1 (fst (loop_state False demo_env [] 1))) ''mac''"
    by (simp_all add: demo_t2)
  from pending_task_without_mac_is_flagged [OF ready read n p m, THEN conjunct1]
  have "\<exists>rest. processWolQueue False demo_env [] =
         demo_after_t1
         @ [Json_iteratorGet 1,
            Serial_printf ''  Inspecting Task ID: %s (Path: %s)\<newline>'' [S ''t2'', S ''/wol/queue/t2''],
            RTDB_get ''/wol/queue/t2'',
            Serial_printf ''    Task '%s' has status 'pending'. Processing...\<newline>'' [S ''t2''],
            Serial_printf ''[WARN] Task '%s': Failed to extract 'mac' field.\<newline>'' [S ''t2''],
            RTDB_setString ''/wol/queue/t2/status'' ''error_missing_mac'',
            Json_iteratorGet 2] @ rest"
    by (simp add: demo_t2 fetch_history_def demo_loop_state_1 numeral_2_eq_2)
  with ready read n p m show ?thesis
    by blast
qed



subsection \<open>Queue Processor: failures of one task\<close>



subsection \<open>Queue Processor: pruning\<close>

text \<open>
  C8. Let pruning be enabled, the store ready and the bulk read successful, and let the
  loop reach index \<open>j\<close> with the history \<open>hj\<close>. If the task at \<open>j\<close> is found with the status
  \<open>done\<close>, or is pending with a readable \<open>mac\<close> and its write of \<open>done\<close> succeeds, then its id
  is among the marked ids the loop ends with. \<open>processWolQueue\<close> is then the evaluation
  pass over all entries, followed by the deletions: no deletion is requested during the
  pass, and after it exactly one deletion is requested for every marked id, in the order
  of marking, whatever the outcome of the deletions before. A deletion that fails is
  followed by the log line that reports it, and the loop goes on with the remaining ids.
\<close>

theorem pruning_deletes_marked_ids_after_the_pass:
  fixes env h j
  defines "h1 \<equiv> h @ [Firebase_ready,
                      Serial_printf ''[QUEUE] Checking WOL queue at %s...\<newline>''
                        [S FIREBASE_QUEUE_PATH],
                      RTDB_getJSON FIREBASE_QUEUE_PATH]"
  defines "n \<equiv> iteratorBegin_reply env (h1 @ [Json_iteratorBegin])"
  defines "h3 \<equiv> h1 @ [Json_iteratorBegin,
                       Serial_printf ''  Found %d potential tasks.\<newline>'' [U n]]"
  defines "fin \<equiv> queue_loop True env 0 n (h3, [])"
  defines "h_del \<equiv> fst fin @ [Json_iteratorEnd,
                            Serial_printf ''[QUEUE] Deleting %d completed tasks...\<newline>''
                              [U (length (snd fin))]]"
  defines "hj \<equiv> fst (queue_loop True env 0 j (h3, []))"
  defines "r \<equiv> fetched env j hj"
  defines "h5 \<equiv>
     fetch_history env j hj
     @ [Serial_printf ''    Task '%s' has status 'pending'. Processing...\<newline>''
          [S (task_id env j hj)],
        Serial_printf ''      MAC: %s, Delay: %d ms\<newline>''
          [S (field_string r ''mac''), I (extract_delayMs env r)]]
     @ (if 0 < extract_delayMs env r
        then [Serial_printf ''      Applying delay of %d ms...\<newline>'' [I (extract_delayMs env r)],
              Delay (extract_delayMs env r)]
        else [])"
  defines "h7 \<equiv>
     sendWOL env (Some (field_string r ''mac'')) h5
     @ [Serial_printf ''      Updating status to 'done'...\<newline>'' [],
        RTDB_setString (task_path env j hj @ ''/status'') ''done'']"
  assumes ready: "ready_reply env (h @ [Firebase_ready])"
    and read: "ok (rtdb_reply env h1)"
    and j: "j < n"
    and marked: "status_is env j hj ''done''
                 \<or> (status_is env j hj ''pending'' \<and> field_readable r ''mac''
                     \<and> ok (rtdb_reply env h7))"
  shows "task_id env j hj \<in> set (snd fin)
       \<and> processWolQueue True env h =
           delete_loop env (snd fin) h_del @ [Serial_println ''[QUEUE] Queue check finished.'']
       \<and> filter is_delete (emitted h (fst fin)) = []
       \<and> filter is_store_write (emitted h_del (delete_loop env (snd fin) h_del)) =
           map (\<lambda>t. RTDB_deleteNode (FIREBASE_QUEUE_PATH @ ''/'' @ t)) (snd fin)
       \<and> (\<forall>t ts g.
             \<not> ok (rtdb_reply env
                     (g @ [Serial_printf ''  Deleting node: %s\<newline>''
                             [S (FIREBASE_QUEUE_PATH @ ''/'' @ t)],
                           RTDB_deleteNode (FIREBASE_QUEUE_PATH @ ''/'' @ t)])) \<longrightarrow>
             delete_loop env (t # ts) g =
               delete_loop env ts
                 (g @ [Serial_printf ''  Deleting node: %s\<newline>''
                         [S (FIREBASE_QUEUE_PATH @ ''/'' @ t)],
                       RTDB_deleteNode (FIREBASE_QUEUE_PATH @ ''/'' @ t),
                       Serial_printf ''[ERROR] Failed to delete task '%s': %s\<newline>''
                         [S t, S (errorReason (rtdb_reply env
                            (g @ [Serial_printf ''  Deleting node: %s\<newline>''
                                    [S (FIREBASE_QUEUE_PATH @ ''/'' @ t)],
                                  RTDB_deleteNode (FIREBASE_QUEUE_PATH @ ''/'' @ t)])))]]))"
proof -
  obtain idsj where stj: "queue_loop True env 0 j (h3, []) = (hj, idsj)"
    unfolding hj_def by (cases "queue_loop True env 0 j (h3, [])") simp
  have "snd (queue_loop_body True env j (hj, idsj)) = idsj @ [task_id env j hj]"
    using marked
  proof
    assume "status_is env j hj ''done''"
    then show ?thesis
      by (simp add: body_not_pending)
  next
    assume "status_is env j hj ''pending'' \<and> field_readable r ''mac'' \<and> ok (rtdb_reply env h7)"
    then show ?thesis
      unfolding r_def h5_def h7_def
      by (simp add: body_pending Let_def sendWOL_Some_eq)
  qed
  then obtain hb where body: "queue_loop_body True env j (hj, idsj) = (hb, idsj @ [task_id env j hj])"
    by (cases "queue_loop_body True env j (hj, idsj)") simp
  have "fin = queue_loop True env j n (queue_loop True env 0 j (h3, []))"
    unfolding fin_def using j by (intro queue_loop_split) simp_all
  also have "\<dots> = queue_loop True env (Suc j) n (hb, idsj @ [task_id env j hj])"
    using j by (simp add: stj queue_loop_step body)
  finally have fin_eq: "fin = queue_loop True env (Suc j) n (hb, idsj @ [task_id env j hj])" .
  obtain es more where "fin = (hb @ es, (idsj @ [task_id env j hj]) @ more)"
    using queue_loop_extends [of True env "Suc j" n hb "idsj @ [task_id env j hj]"] fin_eq
    by auto
  then have member: "task_id env j hj \<in> set (snd fin)"
    by simp
  then have nonempty: "snd fin \<noteq> []"
    by auto
  have n: "0 < n"
    using j by simp
  have raw: "processWolQueue True env h =
     (if True \<and> snd fin \<noteq> [] then delete_loop env (snd fin) h_del
      else fst fin @ [Json_iteratorEnd])
     @ [Serial_println ''[QUEUE] Queue check finished.'']"
    unfolding h_del_def fin_def h3_def
    by (rule processWolQueue_nonempty
        [OF ready read [unfolded h1_def] n [unfolded n_def h1_def], folded h1_def n_def])
  have pass: "processWolQueue True env h =
           delete_loop env (snd fin) h_del @ [Serial_println ''[QUEUE] Queue check finished.'']"
    unfolding raw using nonempty by simp
  obtain es' more' where "fin = (h3 @ es', [] @ more')" and "filter is_delete es' = []"
    using queue_loop_extends [of True env 0 n h3 "[]"] unfolding fin_def by blast
  then have quiet: "filter is_delete (emitted h (fst fin)) = []"
    unfolding h3_def h1_def by simp
  obtain ds where "delete_loop env (snd fin) h_del = h_del @ ds"
    and "filter is_store_write ds =
           map (\<lambda>t. RTDB_deleteNode (FIREBASE_QUEUE_PATH @ ''/'' @ t)) (snd fin)"
    using delete_loop_requests [of env "snd fin" h_del] by blast
  then have requests: "filter is_store_write (emitted h_del (delete_loop env (snd fin) h_del)) =
           map (\<lambda>t. RTDB_deleteNode (FIREBASE_QUEUE_PATH @ ''/'' @ t)) (snd fin)"
    by simp
  from member pass quiet requests delete_loop_Cons_failed show ?thesis
    by blast
qed

theorem pruning_deletes_marked_ids_after_the_pass_witness:
  "''t1'' \<in> set (snd (queue_loop True demo_env 0 7
       ([Firebase_ready,
         Serial_printf ''[QUEUE] Checking WOL queue at %s...\<newline>'' [S FIREBASE_QUEUE_PATH],
         RTDB_getJSON FIREBASE_QUEUE_PATH, Json_iteratorBegin,
         Serial_printf ''  Found %d potential tasks.\<newline>'' [U 7]], [])))
   \<and> ''t3'' \<in> set (snd (queue_loop True demo_env 0 7
       ([Firebase_ready,
         Serial_printf ''[QUEUE] Checking WOL queue at %s...\<newline>'' [S FIREBASE_QUEUE_PATH],
         RTDB_getJSON FIREBASE_QUEUE_PATH, Json_iteratorBegin,
         Serial_printf ''  Found %d potential tasks.\<newline>'' [U 7]], [])))
   \<and> filter is_store_write (emitted [] (processWolQueue True demo_env [])) =
       [RTDB_setString ''/wol/queue/t1/status'' ''done'',
        RTDB_setString ''/wol/queue/t2/status'' ''error_missing_mac'',
        RTDB_setString ''/wol/queue/t6/status'' ''done'',
        RTDB_deleteNode ''/wol/queue/t1'',
        RTDB_deleteNode ''/wol/queue/t3'']"
proof -
  have q: "demo_rtdb [Firebase_ready,
         Serial_printf ''[QUEUE] Checking WOL queue at %s...\<newline>'' [S FIREBASE_QUEUE_PATH],
         RTDB_getJSON FIREBASE_QUEUE_PATH] = demo_task ''/wol/queue''"
    by (simp add: demo_rtdb_def FIREBASE_QUEUE_PATH_def)
  have okq: "ok (demo_task ''/wol/queue'')"
    by (simp add: demo_task_def reply_ok_def)
  from pruning_deletes_marked_ids_after_the_pass
    [where env = demo_env and h = "[]" and j = 0, THEN conjunct1]
  have t1: "''t1'' \<in> set (snd (queue_loop True demo_env 0 7
       ([Firebase_ready,
         Serial_printf ''[QUEUE] Checking WOL queue at %s...\<newline>'' [S FIREBASE_QUEUE_PATH],
         RTDB_getJSON FIREBASE_QUEUE_PATH, Json_iteratorBegin,
         Serial_printf ''  Found %d potential tasks.\<newline>'' [U 7]], [])))"
    by (simp add: q okq demo_t1 reply_ok_def)
  from pruning_deletes_marked_ids_after_the_pass
    [where env = demo_env and h = "[]" and j = 2, THEN conjunct1]
  have t3: "''t3'' \<in> set (snd (queue_loop True demo_env 0 7
       ([Firebase_ready,
         Serial_printf ''[QUEUE] Checking WOL queue at %s...\<newline>'' [S FIREBASE_QUEUE_PATH],
         RTDB_getJSON FIREBASE_QUEUE_PATH, Json_iteratorBegin,
         Serial_printf ''  Found %d potential tasks.\<newline>'' [U 7]], [])))"
    by (simp add: q okq demo_t3)
  have all: "filter is_store_write (emitted [] (processWolQueue True demo_env [])) =
       [RTDB_setString ''/wol/queue/t1/status'' ''done'',
        RTDB_setString ''/wol/queue/t2/status'' ''error_missing_mac'',
        RTDB_setString ''/wol/queue/t6/status'' ''done'',
        RTDB_deleteNode ''/wol/queue/t1'',
        RTDB_deleteNode ''/wol/queue/t3'']"
    by code_simp
  from t1 t3 all show ?thesis
    by blast
qed

subsection \<open>Queue Processor: the bulk read\<close>

text \<open>
  C10. When the store is ready and the bulk read \<open>getJSON\<close> of the queue fails with a
  genuine error (not the answer 200 with the data type \<open>null\<close>, which is taken for an empty
  queue), \<open>processWolQueue\<close> makes the readiness check and the read, logs the error and the
  end of the check, and nothing else: no packet is handed to the sender, and no write and
  no deletion is requested.
\<close>

theorem failed_bulk_read_changes_nothing:
  fixes del env h
  defines "h1 \<equiv> h @ [Firebase_ready,
                      Serial_printf ''[QUEUE] Checking WOL queue at %s...\<newline>''
                        [S FIREBASE_QUEUE_PATH],
                      RTDB_getJSON FIREBASE_QUEUE_PATH]"
  assumes "ready_reply env (h @ [Firebase_ready])"
    and "\<not> ok (rtdb_reply env h1)"
    and "\<not> (httpCode (rtdb_reply env h1) = 200 \<and> dataType (rtdb_reply env h1) = ''null'')"
  shows "processWolQueue del env h =
           h1 @ [Serial_printf ''[ERROR] Failed to fetch queue data from '%s': %s\<newline>''
                   [S FIREBASE_QUEUE_PATH, S (errorReason (rtdb_reply env h1))],
                 Serial_println ''[QUEUE] Queue check finished.'']
         \<and> filter (\<lambda>e. is_packet e \<or> is_store_write e) (emitted h (processWolQueue del env h)) = []"
  using assms(2-) unfolding h1_def
  by (simp add: processWolQueue_def Let_def)

theorem failed_bulk_read_changes_nothing_witness:
  "processWolQueue True offline_env [] =
     [Firebase_ready,
      Serial_printf ''[QUEUE] Checking WOL queue at %s...\<newline>'' [S ''/wol/queue''],
      RTDB_getJSON ''/wol/queue'',
      Serial_printf ''[ERROR] Failed to fetch queue data from '%s': %s\<newline>''
        [S ''/wol/queue'', S ''connection lost''],
      Serial_println ''[QUEUE] Queue check finished.'']
   \<and> filter (\<lambda>e. is_packet e \<or> is_store_write e) (emitted [] (processWolQueue True offline_env [])) = []"
  using failed_bulk_read_changes_nothing [of offline_env "[]" True]
  by (simp add: offline_env_def reply_failed_def FIREBASE_QUEUE_PATH_def)

subsection \<open>Structure Bootstrapper\<close>




end
